theory Spec2Isabelle
  imports Main "HOL-Library.Word"
begin

section \<open>JavaScript strings\<close>

text \<open>
  A JavaScript string is a sequence of UTF-16 code units and \<open>length\<close> counts code
  units, so a string is a list of 16-bit words. \<open>utf16\<close> reads an ASCII literal of the
  source; characters beyond ASCII are written as their code units.
\<close>

type_synonym jschar = "16 word"
type_synonym jsstring = "jschar list"

fun utf16 :: "string \<Rightarrow> jsstring" where
  "utf16 [] = []"
| "utf16 (c # cs) = word_of_nat (of_char c) # utf16 cs"

text \<open>
  The code units that \<open>trim\<close>, \<open>trimStart\<close> and \<open>trimEnd\<close> remove: ECMAScript's
  WhiteSpace (TAB, VT, FF, SP, NBSP, ZWNBSP and the category Zs) and LineTerminator
  (LF, CR, LS, PS).
\<close>

definition isWhiteSpace :: "jschar \<Rightarrow> bool" where
  "isWhiteSpace c \<longleftrightarrow>
     c = 0x09 \<or> c = 0x0A \<or> c = 0x0B \<or> c = 0x0C \<or> c = 0x0D \<or> c = 0x20 \<or> c = 0xA0
     \<or> c = 0x1680 \<or> (0x2000 \<le> c \<and> c \<le> 0x200A) \<or> c = 0x2028 \<or> c = 0x2029
     \<or> c = 0x202F \<or> c = 0x205F \<or> c = 0x3000 \<or> c = 0xFEFF"

definition trimStart :: "jsstring \<Rightarrow> jsstring" where
  "trimStart s = dropWhile isWhiteSpace s"

definition trimEnd :: "jsstring \<Rightarrow> jsstring" where
  "trimEnd s = rev (dropWhile isWhiteSpace (rev s))"

definition trim :: "jsstring \<Rightarrow> jsstring" where
  "trim s = trimEnd (trimStart s)"

text \<open>\<open>Array.prototype.join\<close> on a list of strings.\<close>

fun join :: "jsstring \<Rightarrow> jsstring list \<Rightarrow> jsstring" where
  "join sep [] = []"
| "join sep [x] = x"
| "join sep (x # y # ys) = x @ sep @ join sep (y # ys)"

section \<open>Types (types.ts)\<close>

datatype DmPolicy = Open | Allowlist

record WhatsAppCloudConfig =
  enabled :: bool
  phoneNumberId :: jsstring
  businessAccountId :: jsstring
  accessToken :: jsstring
  appSecret :: jsstring
  verifyToken :: jsstring
  webhookPort :: nat
  webhookPath :: jsstring
  apiVersion :: jsstring
  dmPolicy :: DmPolicy
  allowFrom :: "jsstring list"
  sendReadReceipts :: bool

text \<open>
  \<open>MediaObject\<close>, with the \<open>filename\<close> that a document adds. An optional property is an
  \<open>option\<close>: \<open>None\<close> when the JSON leaves it out.
\<close>

record MediaObject =
  mo_id :: jsstring
  mo_mime_type :: jsstring
  mo_sha256 :: "jsstring option"
  mo_caption :: "jsstring option"
  mo_filename :: "jsstring option"

text \<open>
  \<open>latitude\<close> and \<open>longitude\<close> are JSON numbers that the code only interpolates into a
  template string; the fields hold the text JavaScript renders for them.
\<close>

record Location =
  latitude :: jsstring
  longitude :: jsstring
  loc_name :: "jsstring option"
  loc_address :: "jsstring option"

record ContactCard =
  formatted_name :: jsstring
  phones :: "jsstring list option"

record ReplyObject =
  ro_id :: jsstring
  ro_title :: jsstring
  ro_description :: "jsstring option"

record Interactive =
  ia_type :: jsstring
  button_reply :: "ReplyObject option"
  list_reply :: "ReplyObject option"

record Button =
  bt_text :: jsstring
  bt_payload :: jsstring

record Context =
  cx_from :: jsstring
  cx_id :: jsstring

text \<open>\<open>IncomingMessage\<close> of types.ts (\<open>WAMessage\<close> in webhook.ts); \<open>msg_text\<close> is \<open>text.body\<close>.\<close>

record WAMessage =
  msg_from :: jsstring
  msg_id :: jsstring
  msg_timestamp :: jsstring
  msg_type :: jsstring
  msg_text :: "jsstring option"
  msg_image :: "MediaObject option"
  msg_audio :: "MediaObject option"
  msg_video :: "MediaObject option"
  msg_document :: "MediaObject option"
  msg_sticker :: "MediaObject option"
  msg_location :: "Location option"
  msg_contacts :: "ContactCard list option"
  msg_interactive :: "Interactive option"
  msg_button :: "Button option"
  msg_context :: "Context option"

text \<open>\<open>WebhookContact\<close>; \<open>profile_name\<close> is \<open>profile.name\<close>, which the code reads with \<open>?.\<close>.\<close>

record WebhookContact =
  profile_name :: "jsstring option"
  wa_id :: jsstring

record MessageStatus =
  st_id :: jsstring
  st_status :: jsstring
  st_timestamp :: jsstring
  st_recipient_id :: jsstring

record WebhookError =
  we_code :: int
  we_title :: jsstring
  we_message :: jsstring

record WebhookValue =
  contacts :: "WebhookContact list option"
  messages :: "WAMessage list option"
  statuses :: "MessageStatus list option"
  errors :: "WebhookError list option"

record WebhookChange =
  ch_value :: WebhookValue
  ch_field :: jsstring

record WebhookEntry =
  en_id :: jsstring
  changes :: "WebhookChange list"

record WebhookPayload =
  object :: jsstring
  entry :: "WebhookEntry list"

section \<open>Inbound messages (webhook.ts)\<close>

record Media =
  mediaId :: jsstring
  mimeType :: jsstring
  caption :: "jsstring option"
  filename :: "jsstring option"

datatype ReplyType = ButtonReply | ListReply

record InteractiveReply =
  replyId :: jsstring
  title :: jsstring
  replyType :: ReplyType

record ParsedInboundMessage =
  sender :: jsstring
  senderName :: jsstring
  msgText :: jsstring
  messageId :: jsstring
  timestamp :: jsstring
  kind :: jsstring
  media :: "Media option"
  interactiveReply :: "InteractiveReply option"
  quotedMessageId :: "jsstring option"

record ExtractedContent =
  ec_text :: jsstring
  ec_media :: "Media option"
  ec_interactiveReply :: "InteractiveReply option"

text \<open>
  The placeholder texts of the source hold characters beyond ASCII: the camera U+1F4F7,
  the note U+1F3B5, the clapper U+1F3AC, the page U+1F4C4 and the pin U+1F4CD, each a
  surrogate pair, and the em dash U+2014.
\<close>

definition emojiCamera :: jsstring where "emojiCamera = [0xD83D, 0xDCF7]"
definition emojiNote :: jsstring where "emojiNote = [0xD83C, 0xDFB5]"
definition emojiClapper :: jsstring where "emojiClapper = [0xD83C, 0xDFAC]"
definition emojiPage :: jsstring where "emojiPage = [0xD83D, 0xDCC4]"
definition emojiPin :: jsstring where "emojiPin = [0xD83D, 0xDCCD]"
definition emDash :: jsstring where "emDash = [0x2014]"

definition mediaOf :: "MediaObject \<Rightarrow> bool \<Rightarrow> bool \<Rightarrow> Media" where
  "mediaOf m withCaption withFilename =
     \<lparr> mediaId = mo_id m, mimeType = mo_mime_type m,
       caption = (if withCaption then mo_caption m else None),
       filename = (if withFilename then mo_filename m else None) \<rparr>"

definition content :: "jsstring \<Rightarrow> Media option \<Rightarrow> InteractiveReply option \<Rightarrow> ExtractedContent" where
  "content t m r = \<lparr> ec_text = t, ec_media = m, ec_interactiveReply = r \<rparr>"

definition locationText :: "Location \<Rightarrow> jsstring" where
  "locationText l =
     trim (utf16 ''['' @ emojiPin @ utf16 '' Location: ''
           @ (case loc_name l of Some n \<Rightarrow> n | None \<Rightarrow> [])
           @ utf16 '' ''
           @ (case loc_address l of Some a \<Rightarrow> a
              | None \<Rightarrow> latitude l @ utf16 '','' @ longitude l)
           @ utf16 '']'')"

definition interactiveContent :: "Interactive option \<Rightarrow> ExtractedContent" where
  "interactiveContent reply =
     (case reply of
        None \<Rightarrow> content (utf16 ''[Interactive message]'') None None
      | Some r \<Rightarrow>
          (case (if ia_type r = utf16 ''button_reply'' then button_reply r else None) of
             Some b \<Rightarrow>
               content (ro_title b) None
                 (Some \<lparr> replyId = ro_id b, title = ro_title b, replyType = ButtonReply \<rparr>)
           | None \<Rightarrow>
               (case (if ia_type r = utf16 ''list_reply'' then list_reply r else None) of
                  Some l \<Rightarrow>
                    content (ro_title l) None
                      (Some \<lparr> replyId = ro_id l, title = ro_title l, replyType = ListReply \<rparr>)
                | None \<Rightarrow> content (utf16 ''[Interactive message]'') None None)))"

definition extractMessageContent :: "WAMessage \<Rightarrow> ExtractedContent" where
  "extractMessageContent msg =
    (if msg_type msg = utf16 ''text'' then
       content (case msg_text msg of Some b \<Rightarrow> b | None \<Rightarrow> []) None None
     else if msg_type msg = utf16 ''image'' then
       content
         (case Option.bind (msg_image msg) mo_caption of Some c \<Rightarrow> c
          | None \<Rightarrow> utf16 ''['' @ emojiCamera @ utf16 '' Image]'')
         (map_option (\<lambda>m. mediaOf m True False) (msg_image msg)) None
     else if msg_type msg = utf16 ''audio'' then
       content (utf16 ''['' @ emojiNote @ utf16 '' Audio message]'')
         (map_option (\<lambda>m. mediaOf m False False) (msg_audio msg)) None
     else if msg_type msg = utf16 ''video'' then
       content
         (case Option.bind (msg_video msg) mo_caption of Some c \<Rightarrow> c
          | None \<Rightarrow> utf16 ''['' @ emojiClapper @ utf16 '' Video]'')
         (map_option (\<lambda>m. mediaOf m True False) (msg_video msg)) None
     else if msg_type msg = utf16 ''document'' then
       content
         (case Option.bind (msg_document msg) mo_caption of Some c \<Rightarrow> c
          | None \<Rightarrow>
              utf16 ''['' @ emojiPage @ utf16 '' Document: ''
              @ (case Option.bind (msg_document msg) mo_filename of Some f \<Rightarrow> f
                 | None \<Rightarrow> utf16 ''file'')
              @ utf16 '']'')
         (map_option (\<lambda>m. mediaOf m True True) (msg_document msg)) None
     else if msg_type msg = utf16 ''sticker'' then
       content (utf16 ''[Sticker]'')
         (map_option (\<lambda>m. mediaOf m False False) (msg_sticker msg)) None
     else if msg_type msg = utf16 ''location'' then
       content
         (case msg_location msg of Some l \<Rightarrow> locationText l
          | None \<Rightarrow> utf16 ''['' @ emojiPin @ utf16 '' Location]'')
         None None
     else if msg_type msg = utf16 ''contacts'' then
       content
         (case msg_contacts msg of
            Some cs \<Rightarrow>
              utf16 ''[Contact: '' @ join (utf16 '', '') (map formatted_name cs) @ utf16 '']''
          | None \<Rightarrow> utf16 ''[Contact]'')
         None None
     else if msg_type msg = utf16 ''interactive'' then
       interactiveContent (msg_interactive msg)
     else if msg_type msg = utf16 ''button'' then
       content (case msg_button msg of Some b \<Rightarrow> bt_text b | None \<Rightarrow> utf16 ''[Button]'')
         None None
     else
       content (utf16 ''['' @ msg_type msg @ utf16 '' message '' @ emDash
                @ utf16 '' not yet supported]'') None None)"

text \<open>\<open>phone.replace(/[^0-9]/g, "")\<close>: the digits of the string, in order.\<close>

definition isDigit :: "jschar \<Rightarrow> bool" where
  "isDigit c \<longleftrightarrow> 0x30 \<le> c \<and> c \<le> 0x39"

definition normalizePhone :: "jsstring \<Rightarrow> jsstring" where
  "normalizePhone phone = filter isDigit phone"

text \<open>
  What a request handler does to the outside is a list of effects, in the order of the
  calls: the HTTP response (status, \<open>Content-Type\<close>, body), a log line (by level; the
  wording of log lines is not modelled), the two callbacks, and the read receipt that
  \<open>markAsRead\<close> posts without being awaited.
\<close>

datatype logLevel = Info | Warn | Error | Debug

datatype effect =
    Respond nat "jsstring option" jsstring
  | Log logLevel
  | OnStatus jsstring jsstring jsstring
  | OnMessage ParsedInboundMessage
  | MarkAsRead jsstring

definition processMessage ::
  "WAMessage \<Rightarrow> WebhookContact list \<Rightarrow> WhatsAppCloudConfig \<Rightarrow> effect list" where
  "processMessage msg cts config =
    (if dmPolicy config = Allowlist
        \<and> \<not> list_ex (\<lambda>n. normalizePhone n = normalizePhone (msg_from msg)) (allowFrom config)
     then [Log Info]
     else
       let contact = find (\<lambda>c. wa_id c = msg_from msg) cts;
           name = (case Option.bind contact profile_name of Some n \<Rightarrow> n
                   | None \<Rightarrow> msg_from msg);
           parsed = extractMessageContent msg;
           inbound = \<lparr> sender = msg_from msg, senderName = name, msgText = ec_text parsed,
                       messageId = msg_id msg, timestamp = msg_timestamp msg,
                       kind = msg_type msg, media = ec_media parsed,
                       interactiveReply = ec_interactiveReply parsed,
                       quotedMessageId = map_option cx_id (msg_context msg) \<rparr>
       in [Log Info]
          @ (if sendReadReceipts config then [MarkAsRead (msg_id msg)] else [])
          @ [OnMessage inbound])"

definition dispatched :: "effect list \<Rightarrow> ParsedInboundMessage list" where
  "dispatched tr = concat (map (\<lambda>e. case e of OnMessage m \<Rightarrow> [m] | _ \<Rightarrow> []) tr)"

text \<open>The messages handed to the \<open>onMessage\<close> callback, and the responses written.\<close>

definition responses :: "effect list \<Rightarrow> (nat \<times> jsstring) list" where
  "responses tr = concat (map (\<lambda>e. case e of Respond st ct b \<Rightarrow> [(st, b)] | _ \<Rightarrow> []) tr)"

section \<open>Signature verification (crypto.ts)\<close>

type_synonym bytes = "8 word list"

text \<open>
  \<open>Buffer.from(string)\<close> and \<open>Hmac.update(string)\<close> encode the string as UTF-8: a
  surrogate pair is one code point of four bytes, a lone surrogate becomes U+FFFD.
\<close>

definition utf8Bytes :: "nat \<Rightarrow> bytes" where
  "utf8Bytes n =
     (if n < 0x80 then [of_nat n]
      else if n < 0x800 then [of_nat (0xC0 + n div 64), of_nat (0x80 + n mod 64)]
      else if n < 0x10000 then
        [of_nat (0xE0 + n div 4096), of_nat (0x80 + (n div 64) mod 64), of_nat (0x80 + n mod 64)]
      else
        [of_nat (0xF0 + n div 262144), of_nat (0x80 + (n div 4096) mod 64),
         of_nat (0x80 + (n div 64) mod 64), of_nat (0x80 + n mod 64)])"

definition isHighSurrogate :: "jschar \<Rightarrow> bool" where
  "isHighSurrogate c \<longleftrightarrow> 0xD800 \<le> c \<and> c \<le> 0xDBFF"

definition isLowSurrogate :: "jschar \<Rightarrow> bool" where
  "isLowSurrogate c \<longleftrightarrow> 0xDC00 \<le> c \<and> c \<le> 0xDFFF"

definition codePoint :: "jschar \<Rightarrow> jschar \<Rightarrow> nat" where
  "codePoint hi lo = 0x10000 + (unat hi - 0xD800) * 0x400 + (unat lo - 0xDC00)"

fun utf8Encode :: "jsstring \<Rightarrow> bytes" where
  "utf8Encode [] = []"
| "utf8Encode [c] =
     (if isHighSurrogate c \<or> isLowSurrogate c then utf8Bytes 0xFFFD else utf8Bytes (unat c))"
| "utf8Encode (c # d # ds) =
     (if isHighSurrogate c \<and> isLowSurrogate d then utf8Bytes (codePoint c d) @ utf8Encode ds
      else if isHighSurrogate c \<or> isLowSurrogate c then utf8Bytes 0xFFFD @ utf8Encode (d # ds)
      else utf8Bytes (unat c) @ utf8Encode (d # ds))"

text \<open>\<open>digest("hex")\<close>: two lowercase hexadecimal digits for each byte.\<close>

definition hexDigit :: "nat \<Rightarrow> jschar" where
  "hexDigit n = (if n < 10 then of_nat (0x30 + n) else of_nat (0x61 + (n - 10)))"

definition hexEncode :: "bytes \<Rightarrow> jsstring" where
  "hexEncode bs = concat (map (\<lambda>b. [hexDigit (unat b div 16), hexDigit (unat b mod 16)]) bs)"

text \<open>A string of ASCII characters only; its UTF-8 encoding has one byte for each.\<close>

definition isAscii :: "jsstring \<Rightarrow> bool" where
  "isAscii s \<longleftrightarrow> (\<forall>c \<in> set s. unat c < 128)"

text \<open>
  The exceptions of the model. \<open>crypto.timingSafeEqual\<close> throws a RangeError when its
  arguments differ in length; that its running time does not depend on the contents is
  not a property of the value it returns. The \<open>URL\<close> constructor throws a TypeError.
\<close>

datatype error = RangeError | TypeError

definition timingSafeEqual :: "bytes \<Rightarrow> bytes \<Rightarrow> error + bool" where
  "timingSafeEqual a b = (if length a \<noteq> length b then Inl RangeError else Inr (a = b))"

text \<open>
  HMAC-SHA256 is Node's, not this repository's: \<open>hmac key message\<close> stands for the digest
  bytes of \<open>createHmac("sha256", key).update(message).digest()\<close>, and every function below
  takes it as its first argument.
\<close>

type_synonym hmacFn = "bytes \<Rightarrow> bytes \<Rightarrow> bytes"

definition expectedSignature :: "hmacFn \<Rightarrow> jsstring \<Rightarrow> jsstring \<Rightarrow> jsstring" where
  "expectedSignature hmac rawBody secret =
     utf16 ''sha256='' @ hexEncode (hmac (utf8Encode secret) (utf8Encode rawBody))"

text \<open>The body of the \<open>try\<close> block: \<open>Inl\<close> is an exception that the \<open>catch\<close> turns into false.\<close>

definition compareSignatures :: "jsstring \<Rightarrow> jsstring \<Rightarrow> error + bool" where
  "compareSignatures signatureHeader expected =
     (let sigBuffer = utf8Encode signatureHeader;
          expectedBuffer = utf8Encode expected
      in if length sigBuffer \<noteq> length expectedBuffer then Inr False
         else timingSafeEqual sigBuffer expectedBuffer)"

definition verifyWebhookSignature ::
  "hmacFn \<Rightarrow> jsstring \<Rightarrow> jsstring option \<Rightarrow> jsstring \<Rightarrow> bool" where
  "verifyWebhookSignature hmac rawBody signatureHeader secret =
     (case signatureHeader of
        None \<Rightarrow> False
      | Some h \<Rightarrow>
          if h = [] \<or> secret = [] then False
          else (case compareSignatures h (expectedSignature hmac rawBody secret) of
                  Inl e \<Rightarrow> False
                | Inr b \<Rightarrow> b))"

section \<open>The webhook server (webhook.ts)\<close>

text \<open>
  A request as the listener receives it: \<open>req.method\<close>, \<open>req.url\<close>, the \<open>Host\<close> header, the
  \<open>x-hub-signature-256\<close> header and the chunks of the body.
\<close>

record Request =
  httpMethod :: jsstring
  requestUrl :: "jsstring option"
  hostHeader :: "jsstring option"
  signature256 :: "jsstring option"
  bodyChunks :: "jsstring list"

text \<open>
  The \<open>URL\<close> constructor is the platform's: \<open>parseUrl input base\<close> stands for
  \<open>new URL(input, base)\<close>. It is \<open>None\<close> where the constructor throws, and otherwise the
  \<open>pathname\<close> and the entries of \<open>searchParams\<close>, in order, so that \<open>searchParams.get\<close> is
  the first entry of that name.
\<close>

type_synonym urlFn = "jsstring \<Rightarrow> jsstring \<Rightarrow> (jsstring \<times> (jsstring \<times> jsstring) list) option"

definition handleVerification ::
  "(jsstring \<times> jsstring) list \<Rightarrow> WhatsAppCloudConfig \<Rightarrow> effect list" where
  "handleVerification params config =
     (let mode = map_of params (utf16 ''hub.mode'');
          token = map_of params (utf16 ''hub.verify_token'');
          challenge = map_of params (utf16 ''hub.challenge'')
      in case challenge of
           Some c \<Rightarrow>
             if mode = Some (utf16 ''subscribe'') \<and> token = Some (verifyToken config) \<and> c \<noteq> []
             then [Log Info, Respond 200 (Some (utf16 ''text/plain'')) c]
             else [Log Warn, Respond 403 None (utf16 ''Forbidden'')]
         | None \<Rightarrow> [Log Warn, Respond 403 None (utf16 ''Forbidden'')])"

text \<open>
  One change of one entry. \<open>hasOnStatus\<close> says whether a status callback was registered.
\<close>

definition processChange :: "WhatsAppCloudConfig \<Rightarrow> bool \<Rightarrow> WebhookChange \<Rightarrow> effect list" where
  "processChange config hasOnStatus change =
     (if ch_field change \<noteq> utf16 ''messages'' then []
      else
        (case errors (ch_value change) of
           Some es \<Rightarrow> map (\<lambda>err. Log Error) es | None \<Rightarrow> [])
        @ (case statuses (ch_value change) of
             Some ss \<Rightarrow>
               if hasOnStatus
               then map (\<lambda>s. OnStatus (st_id s) (st_status s) (st_recipient_id s)) ss else []
           | None \<Rightarrow> [])
        @ (case messages (ch_value change) of
             Some ms \<Rightarrow>
               concat (map (\<lambda>msg.
                 processMessage msg
                   (case contacts (ch_value change) of Some cs \<Rightarrow> cs | None \<Rightarrow> []) config) ms)
           | None \<Rightarrow> []))"

text \<open>
  \<open>JSON.parse\<close> is the engine's: \<open>parse\<close> gives the payload, or \<open>None\<close> where it throws.
  The payloads of the model have the shape that types.ts declares.
\<close>

type_synonym parseFn = "jsstring \<Rightarrow> WebhookPayload option"

definition handleIncoming ::
  "hmacFn \<Rightarrow> parseFn \<Rightarrow> Request \<Rightarrow> WhatsAppCloudConfig \<Rightarrow> bool \<Rightarrow> effect list" where
  "handleIncoming hmac parse req config hasOnStatus =
     (let rawBody = concat (bodyChunks req)
      in Respond 200 (Some (utf16 ''text/plain'')) (utf16 ''OK'')
         # (if appSecret config \<noteq> []
               \<and> \<not> verifyWebhookSignature hmac rawBody (signature256 req) (appSecret config)
            then [Log Warn]
            else
              (if appSecret config \<noteq> [] then [] else [Log Debug])
              @ (case parse rawBody of
                   None \<Rightarrow> [Log Error]
                 | Some payload \<Rightarrow>
                     if object payload \<noteq> utf16 ''whatsapp_business_account'' then [Log Debug]
                     else concat (map (\<lambda>e.
                            concat (map (processChange config hasOnStatus) (changes e)))
                            (entry payload)))))"

definition healthBody :: jsstring where
  "healthBody = utf16 ''{\"status\":\"ok\",\"channel\":\"whatsapp-cloud\"}''"

text \<open>
  The request listener that \<open>startWebhookServer\<close> installs. Its first statement builds the
  URL from \<open>req.url\<close> (or "/") and the base "http://" followed by the \<open>Host\<close> header (or
  "localhost"), outside any \<open>try\<close>: where the constructor throws, the listener ends with
  that exception, \<open>Inl\<close>, before it has written anything.
\<close>

definition handleRequest ::
  "urlFn \<Rightarrow> hmacFn \<Rightarrow> parseFn \<Rightarrow> WhatsAppCloudConfig \<Rightarrow> bool \<Rightarrow> Request
     \<Rightarrow> error + effect list" where
  "handleRequest parseUrl hmac parse config hasOnStatus req =
     (case parseUrl (case requestUrl req of Some u \<Rightarrow> u | None \<Rightarrow> utf16 ''/'')
             (utf16 ''http://''
              @ (case hostHeader req of Some h \<Rightarrow> h | None \<Rightarrow> utf16 ''localhost'')) of
        None \<Rightarrow> Inl TypeError
      | Some (path, params) \<Rightarrow>
          Inr (if httpMethod req = utf16 ''GET'' \<and> path = webhookPath config
               then handleVerification params config
               else if httpMethod req = utf16 ''POST'' \<and> path = webhookPath config
               then handleIncoming hmac parse req config hasOnStatus
               else if httpMethod req = utf16 ''GET'' \<and> path = utf16 ''/health''
               then [Respond 200 (Some (utf16 ''application/json'')) healthBody]
               else [Respond 404 None (utf16 ''Not found'')]))"

text \<open>What the listener has done when it ends: nothing, where it ended with an exception.\<close>

definition effectsOf :: "error + effect list \<Rightarrow> effect list" where
  "effectsOf outcome = (case outcome of Inl e \<Rightarrow> [] | Inr tr \<Rightarrow> tr)"

section \<open>The Cloud API client (api.ts)\<close>

record SendResult =
  ok :: bool
  sentMessageId :: "jsstring option"
  errorText :: "jsstring option"

record SendTextRequest =
  messaging_product :: jsstring
  recipient_type :: jsstring
  recipient :: jsstring
  requestType :: jsstring
  preview_url :: bool
  body :: jsstring

record FetchCall =
  url :: jsstring
  authorization :: jsstring
  contentType :: jsstring
  payload :: SendTextRequest

text \<open>
  What \<open>sendRequest\<close> can see of one \<open>fetch\<close>: the promise rejects (with the message the
  \<open>catch\<close> derives from the exception); or a response that is not ok, with its status, its
  status text and \<open>error.message\<close> of its body where the body is JSON that has one; or an
  ok response, whose \<open>json()\<close> either throws or gives \<open>messages[0].id\<close>, if present.
\<close>

datatype fetchOutcome =
    FetchThrows jsstring
  | ErrorResponse nat jsstring "jsstring option"
  | OkResponse "jsstring + jsstring option"

text \<open>
  The network is a state of any type \<open>'n\<close> and \<open>fetch\<close> a step on it. The world of the
  client also keeps, for the proofs, every call of \<open>sendRequest\<close> with the result it
  returned, in order, and the levels of the lines it logged.
\<close>

type_synonym 'n fetchFn = "'n \<Rightarrow> FetchCall \<Rightarrow> fetchOutcome \<times> 'n"

record 'n world =
  network :: 'n
  calls :: "(SendTextRequest \<times> SendResult) list"
  apiLog :: "logLevel list"

definition apiUrl :: "WhatsAppCloudConfig \<Rightarrow> jsstring \<Rightarrow> jsstring" where
  "apiUrl config path =
     utf16 ''https://graph.facebook.com'' @ utf16 ''/'' @ apiVersion config @ utf16 ''/'' @ path"

text \<open>A status code in a template string: its decimal digits.\<close>

fun showNat :: "nat \<Rightarrow> jsstring" where
  "showNat n = (if n < 10 then [of_nat (0x30 + n)]
                else showNat (n div 10) @ [of_nat (0x30 + n mod 10)])"

declare showNat.simps [simp del]

definition failure :: "jsstring \<Rightarrow> SendResult" where
  "failure msg = \<lparr> ok = False, sentMessageId = None, errorText = Some msg \<rparr>"

definition sendRequest ::
  "'n fetchFn \<Rightarrow> WhatsAppCloudConfig \<Rightarrow> SendTextRequest \<Rightarrow> 'n world \<Rightarrow> SendResult \<times> 'n world" where
  "sendRequest fetch config request w =
     (let call = \<lparr> url = apiUrl config (phoneNumberId config @ utf16 ''/messages''),
                   authorization = utf16 ''Bearer '' @ accessToken config,
                   contentType = utf16 ''application/json'', payload = request \<rparr>;
          (outcome, n) = fetch (network w) call;
          (result, logged) =
            (case outcome of
               ErrorResponse status statusText msg \<Rightarrow>
                 (failure (case msg of Some m \<Rightarrow> m
                           | None \<Rightarrow> utf16 ''HTTP '' @ showNat status @ utf16 '' '' @ statusText),
                  [Error])
             | OkResponse (Inr mid) \<Rightarrow>
                 (\<lparr> ok = True, sentMessageId = mid, errorText = None \<rparr>, [])
             | OkResponse (Inl msg) \<Rightarrow> (failure msg, [Error])
             | FetchThrows msg \<Rightarrow> (failure msg, [Error]))
      in (result,
          w\<lparr> network := n, calls := calls w @ [(request, result)],
             apiLog := apiLog w @ logged \<rparr>))"

text \<open>
  A \<open>fetch\<close> that answers as the given one does and keeps, beside the network state, every
  call it has received with the outcome it gave, in order.
\<close>

definition recording ::
  "'n fetchFn \<Rightarrow> ('n \<times> (FetchCall \<times> fetchOutcome) list) fetchFn" where
  "recording fetch s call =
     (case fetch (fst s) call of
        (outcome, n) \<Rightarrow> (outcome, (n, snd s @ [(call, outcome)])))"

text \<open>
  \<open>lastIndexOf\<close> for a search string of one code unit, as \<open>splitMessage\<close> calls it: the
  greatest index not beyond \<open>position\<close> that holds it, or -1.
\<close>

definition lastIndexOf :: "jsstring \<Rightarrow> jschar \<Rightarrow> nat \<Rightarrow> int" where
  "lastIndexOf s c position =
     (case filter (\<lambda>k. s ! k = c) (rev [0 ..< min (Suc position) (length s)]) of
        [] \<Rightarrow> - 1
      | k # ks \<Rightarrow> int k)"

text \<open>\<open>slice(start, end)\<close>: a negative index counts from the end, and both are clamped.\<close>

definition sliceIndex :: "jsstring \<Rightarrow> int \<Rightarrow> nat" where
  "sliceIndex s i = (if i < 0 then nat (max (int (length s) + i) 0) else min (nat i) (length s))"

definition sliceStr :: "jsstring \<Rightarrow> int \<Rightarrow> int \<Rightarrow> jsstring" where
  "sliceStr s start stop =
     take (sliceIndex s stop - sliceIndex s start) (drop (sliceIndex s start) s)"

text \<open>
  The split index of one round of the loop. \<open>maxLength\<close> and the indices are integers, so
  \<open>splitIndex < maxLength * 0.5\<close> is \<open>2 * splitIndex < maxLength\<close>, and
  \<open>splitIndex < maxLength * 0.3\<close> is \<open>10 * splitIndex < 3 * maxLength\<close> (for 4096, below
  1228.8).
\<close>

definition splitIndex :: "jsstring \<Rightarrow> nat \<Rightarrow> int" where
  "splitIndex remaining maxLength =
     (let i = lastIndexOf remaining 0x0A maxLength;
          j = (if 2 * i < int maxLength then lastIndexOf remaining 0x20 maxLength else i)
      in if 10 * j < 3 * int maxLength then int maxLength else j)"

text \<open>
  The \<open>while\<close> loop of \<open>splitMessage\<close>. A round that leaves \<open>remaining\<close> as long as it was
  leaves it unchanged, and the loop then never ends: that is \<open>None\<close>.
\<close>

function splitLoop :: "nat \<Rightarrow> jsstring list \<Rightarrow> jsstring \<Rightarrow> jsstring list option" where
  "splitLoop maxLength chunks remaining =
     (if length remaining > maxLength then
        (if length (trimStart (sliceStr remaining (splitIndex remaining maxLength)
                                 (int (length remaining)))) < length remaining
         then splitLoop maxLength
                (chunks @ [trimEnd (sliceStr remaining 0 (splitIndex remaining maxLength))])
                (trimStart (sliceStr remaining (splitIndex remaining maxLength)
                              (int (length remaining))))
         else None)
      else Some (if length remaining > 0 then chunks @ [remaining] else chunks))"
  by pat_completeness auto
termination
  by (relation "measure (\<lambda>(maxLength, chunks, remaining). length remaining)") auto

declare splitLoop.simps [simp del]

definition splitMessage :: "jsstring \<Rightarrow> nat \<Rightarrow> jsstring list option" where
  "splitMessage txt maxLength =
     (if length txt \<le> maxLength then Some [txt] else splitLoop maxLength [] txt)"

definition textRequest :: "jsstring \<Rightarrow> jsstring \<Rightarrow> SendTextRequest" where
  "textRequest to chunk =
     \<lparr> messaging_product = utf16 ''whatsapp'', recipient_type = utf16 ''individual'',
       recipient = to, requestType = utf16 ''text'', preview_url = False, body = chunk \<rparr>"

text \<open>The \<open>for\<close> loop of \<open>sendText\<close>, with \<open>lastResult\<close> as it stands before the round.\<close>

fun sendChunks ::
  "'n fetchFn \<Rightarrow> WhatsAppCloudConfig \<Rightarrow> jsstring \<Rightarrow> jsstring list \<Rightarrow> SendResult \<Rightarrow> 'n world
     \<Rightarrow> SendResult \<times> 'n world" where
  "sendChunks fetch config to [] lastResult w = (lastResult, w)"
| "sendChunks fetch config to (chunk # rest) lastResult w =
     (case sendRequest fetch config (textRequest to chunk) w of
        (r, w') \<Rightarrow> if \<not> ok r then (r, w') else sendChunks fetch config to rest r w')"

definition noChunks :: SendResult where
  "noChunks = failure (utf16 ''No chunks'')"

text \<open>\<open>sendText\<close>; \<open>None\<close> when \<open>splitMessage\<close> does not return.\<close>

definition sendText ::
  "'n fetchFn \<Rightarrow> WhatsAppCloudConfig \<Rightarrow> jsstring \<Rightarrow> jsstring \<Rightarrow> 'n world
     \<Rightarrow> (SendResult \<times> 'n world) option" where
  "sendText fetch config to txt w =
     map_option (\<lambda>chunks. sendChunks fetch config to chunks noChunks w) (splitMessage txt 4096)"

section \<open>Fixtures\<close>

text \<open>The configuration and the message skeleton of the repository's tests.\<close>

definition testSecret :: jsstring where
  "testSecret = utf16 ''test_secret_for_webhook''"

definition testConfig :: WhatsAppCloudConfig where
  "testConfig =
     \<lparr> enabled = True, phoneNumberId = utf16 ''123456789'',
       businessAccountId = utf16 ''987654321'', accessToken = utf16 ''test_token'',
       appSecret = testSecret,
       verifyToken = utf16 ''test-verify-token'', webhookPort = 13100,
       webhookPath = utf16 ''/webhook/whatsapp-cloud'', apiVersion = utf16 ''v21.0'',
       dmPolicy = Open, allowFrom = [], sendReadReceipts = False \<rparr>"

definition emptyMessage :: "jsstring \<Rightarrow> jsstring \<Rightarrow> WAMessage" where
  "emptyMessage from ty =
     \<lparr> msg_from = from, msg_id = utf16 ''wamid.test123'',
       msg_timestamp = utf16 ''1700000000'', msg_type = ty, msg_text = None,
       msg_image = None, msg_audio = None, msg_video = None, msg_document = None,
       msg_sticker = None, msg_location = None, msg_contacts = None,
       msg_interactive = None, msg_button = None, msg_context = None \<rparr>"

text \<open>
  The webhook body of the tests' text message (sender 393491234567, text "Hello bot!"):
  what precedes the exclamation mark, and what follows it. The tampered body has a
  question mark in its place, one code unit changed. \<open>helloPayload\<close> is what \<open>JSON.parse\<close>
  gives for the first.
\<close>

definition bodyPrefix :: jsstring where
  \<open>bodyPrefix =
     utf16 ''{"object":"whatsapp_business_account","entry":[{"id":"1","changes":[{"''
     @ utf16 ''value":{"messaging_product":"whatsapp","metadata":{"display_phone_numb''
     @ utf16 ''er":"15550001111","phone_number_id":"123456789"},"contacts":[{"profile''
     @ utf16 ''":{"name":"Test User"},"wa_id":"393491234567"}],"messages":[{"from":"3''
     @ utf16 ''93491234567","id":"wamid.test123","timestamp":"1700000000","type":"tex''
     @ utf16 ''t","text":{"body":"Hello bot''\<close>

definition bodySuffix :: jsstring where
  \<open>bodySuffix = utf16 ''"}}]},"field":"messages"}]}]}''\<close>

definition helloBody :: jsstring where
  "helloBody = bodyPrefix @ utf16 ''!'' @ bodySuffix"

definition tamperedBody :: jsstring where
  "tamperedBody = bodyPrefix @ utf16 ''?'' @ bodySuffix"

definition helloPayload :: WebhookPayload where
  "helloPayload =
     \<lparr> object = utf16 ''whatsapp_business_account'',
       entry =
         [\<lparr> en_id = utf16 ''1'',
            changes =
              [\<lparr> ch_value =
                   \<lparr> contacts = Some [\<lparr> profile_name = Some (utf16 ''Test User''),
                                        wa_id = utf16 ''393491234567'' \<rparr>],
                     messages = Some [(emptyMessage (utf16 ''393491234567'') (utf16 ''text''))
                                        \<lparr> msg_text := Some (utf16 ''Hello bot!'') \<rparr>],
                     statuses = None, errors = None \<rparr>,
                 ch_field = utf16 ''messages'' \<rparr>] \<rparr>] \<rparr>"

definition parseHello :: parseFn where
  "parseHello raw = (if raw = helloBody then Some helloPayload else None)"

text \<open>
  HMAC-SHA256 at three inputs, as Node computes it: the two bodies under the tests' secret
  and the first body under the empty key. Elsewhere the table has no entry.
\<close>

definition hmacTable :: hmacFn where
  "hmacTable key message =
    (if key = utf8Encode testSecret \<and> message = utf8Encode helloBody
     then
     [0x5A, 0x1A, 0xA2, 0xEE, 0x5B, 0x21, 0x7B, 0x31, 0xEF, 0x0A, 0x3F, 0x54,
      0xDB, 0x2B, 0x0F, 0x01, 0x5A, 0xB6, 0x5C, 0xC9, 0x85, 0x20, 0x0F, 0x9A,
      0x3E, 0x6B, 0x43, 0x3A, 0x6E, 0x29, 0x6F, 0x48]
     else if key = [] \<and> message = utf8Encode helloBody
     then
     [0x5A, 0x12, 0x7D, 0x66, 0xD3, 0x7F, 0x5A, 0x78, 0xFB, 0x27, 0x94, 0xD2,
      0xCA, 0x16, 0x40, 0xE4, 0x53, 0x3C, 0x1B, 0x57, 0xCC, 0xAD, 0x1A, 0xEE,
      0x08, 0x36, 0x54, 0xEF, 0x68, 0xE3, 0x1C, 0x21]
     else if key = utf8Encode testSecret
           \<and> message = utf8Encode tamperedBody
     then
     [0x47, 0x17, 0x4F, 0x58, 0x11, 0x0F, 0xBF, 0x45, 0xFC, 0x39, 0x5B, 0x36,
      0x41, 0x9E, 0xC0, 0x9B, 0x03, 0xF4, 0x0B, 0x34, 0x1D, 0x0F, 0x19, 0xB0,
      0x09, 0xAA, 0xD0, 0xA7, 0xA7, 0x47, 0xA8, 0x38]
     else [])"

text \<open>The image message of the tests, with or without a caption.\<close>

definition imageMessage :: "jsstring option \<Rightarrow> WAMessage" where
  "imageMessage cap =
     (emptyMessage (utf16 ''393491234567'') (utf16 ''image''))
       \<lparr> msg_image := Some \<lparr> mo_id = utf16 ''media_id_123'', mo_mime_type = utf16 ''image/jpeg'',
                              mo_sha256 = Some (utf16 ''abc123''), mo_caption = cap,
                              mo_filename = None \<rparr> \<rparr>"

text \<open>
  The requests of the tests, sent to the server on localhost:13100: a POST of a body with
  a signature header, and the verification GET with a token and a challenge.
\<close>

definition postRequest :: "jsstring \<Rightarrow> jsstring option \<Rightarrow> Request" where
  "postRequest raw sig =
     \<lparr> httpMethod = utf16 ''POST'', requestUrl = Some (utf16 ''/webhook/whatsapp-cloud''),
       hostHeader = Some (utf16 ''localhost:13100''), signature256 = sig,
       bodyChunks = [raw] \<rparr>"

definition verificationUrl :: "jsstring \<Rightarrow> jsstring \<Rightarrow> jsstring" where
  "verificationUrl token challenge =
     utf16 ''/webhook/whatsapp-cloud?hub.mode=subscribe&hub.verify_token='' @ token
     @ utf16 ''&hub.challenge='' @ challenge"

definition getRequest :: "jsstring \<Rightarrow> jsstring \<Rightarrow> Request" where
  "getRequest token challenge =
     \<lparr> httpMethod = utf16 ''GET'', requestUrl = Some (verificationUrl token challenge),
       hostHeader = Some (utf16 ''localhost:13100''), signature256 = None,
       bodyChunks = [] \<rparr>"

text \<open>
  The \<open>URL\<close> constructor at the inputs of the fixtures. Under the base "http://", which an
  empty \<open>Host\<close> header gives, it throws. Under the base of the tests' server it parses the
  webhook path, alone and with the verification query for three pairs of token and
  challenge. The table has no other entry.
\<close>

definition verificationParams :: "jsstring \<Rightarrow> jsstring \<Rightarrow> (jsstring \<times> jsstring) list" where
  "verificationParams token challenge =
     [(utf16 ''hub.mode'', utf16 ''subscribe''), (utf16 ''hub.verify_token'', token),
      (utf16 ''hub.challenge'', challenge)]"

definition urlTable :: urlFn where
  "urlTable input base =
     (if base = utf16 ''http://'' then None
      else if base \<noteq> utf16 ''http://localhost:13100'' then None
      else if input = utf16 ''/webhook/whatsapp-cloud''
      then Some (utf16 ''/webhook/whatsapp-cloud'', [])
      else if input = verificationUrl (utf16 ''test-verify-token'') (utf16 ''abc123'')
      then Some (utf16 ''/webhook/whatsapp-cloud'',
                 verificationParams (utf16 ''test-verify-token'') (utf16 ''abc123''))
      else if input = verificationUrl (utf16 ''wrong-token'') (utf16 ''abc123'')
      then Some (utf16 ''/webhook/whatsapp-cloud'',
                 verificationParams (utf16 ''wrong-token'') (utf16 ''abc123''))
      else if input = verificationUrl (utf16 ''test-verify-token'') []
      then Some (utf16 ''/webhook/whatsapp-cloud'',
                 verificationParams (utf16 ''test-verify-token'') [])
      else None)"

text \<open>
  The network of the API tests: a queue of outcomes, one taken by each \<open>fetch\<close>, as the
  tests' mocked \<open>fetch\<close> is scripted; and a world in which nothing has been sent.
\<close>

definition scriptedFetch :: "fetchOutcome list fetchFn" where
  "scriptedFetch net call =
     (case net of
        [] \<Rightarrow> (FetchThrows (utf16 ''fetch failed''), [])
      | outcome # rest \<Rightarrow> (outcome, rest))"

definition freshWorld :: "'n \<Rightarrow> 'n world" where
  "freshWorld n = \<lparr> network = n, calls = [], apiLog = [] \<rparr>"

definition okResponse :: "string \<Rightarrow> fetchOutcome" where
  "okResponse mid = OkResponse (Inr (Some (utf16 mid)))"

section \<open>Access control\<close>

lemma dispatched_processMessage:
  "dispatched (processMessage msg cts config) \<noteq> [] \<longleftrightarrow>
     (dmPolicy config = Allowlist \<longrightarrow>
        list_ex (\<lambda>n. normalizePhone n = normalizePhone (msg_from msg)) (allowFrom config))"
  by (simp add: processMessage_def dispatched_def Let_def)

lemma normalizePhone_digits:
  "normalizePhone s = filter (\<lambda>d. 0x30 \<le> d \<and> d \<le> 0x39) s"
  by (induction s) (simp_all add: normalizePhone_def isDigit_def)

text \<open>
  C7. Under the policy \<open>allowlist\<close> a message is handed to the dispatcher if and only if
  the string of the digits 0 to 9 of its sender id, in order, is equal to the string of
  the digits of some entry of \<open>allowFrom\<close>; that string is what \<open>normalizePhone\<close> computes. A
  character that is not a digit (a space, a plus sign and a dash are such) can be put into
  or taken out of the sender id, or of an entry, at any place without changing the
  outcome.
\<close>

theorem allowlist_access_control:
  fixes c :: jschar
  assumes "dmPolicy config = Allowlist" and "\<not> (0x30 \<le> c \<and> c \<le> 0x39)"
  shows "(dispatched (processMessage msg cts config) \<noteq> [] \<longleftrightarrow>
           (\<exists>n \<in> set (allowFrom config).
              filter (\<lambda>d. 0x30 \<le> d \<and> d \<le> 0x39) n
              = filter (\<lambda>d. 0x30 \<le> d \<and> d \<le> 0x39) (msg_from msg)))
       \<and> normalizePhone s = filter (\<lambda>d. 0x30 \<le> d \<and> d \<le> 0x39) s
       \<and> (dispatched (processMessage (msg\<lparr>msg_from := xs @ c # ys\<rparr>) cts config) \<noteq> [] \<longleftrightarrow>
           dispatched (processMessage (msg\<lparr>msg_from := xs @ ys\<rparr>) cts config) \<noteq> [])
       \<and> (dispatched (processMessage msg cts
                        (config\<lparr>allowFrom := es @ (xs @ c # ys) # es'\<rparr>)) \<noteq> [] \<longleftrightarrow>
           dispatched (processMessage msg cts
                        (config\<lparr>allowFrom := es @ (xs @ ys) # es'\<rparr>)) \<noteq> [])
       \<and> \<not> (0x30 \<le> (0x20 :: jschar) \<and> (0x20 :: jschar) \<le> 0x39)
       \<and> \<not> (0x30 \<le> (0x2B :: jschar) \<and> (0x2B :: jschar) \<le> 0x39)
       \<and> \<not> (0x30 \<le> (0x2D :: jschar) \<and> (0x2D :: jschar) \<le> 0x39)"
  using assms
  by (auto simp: dispatched_processMessage normalizePhone_digits list_ex_iff)

theorem allowlist_access_control_witness:
  "dmPolicy (testConfig\<lparr>dmPolicy := Allowlist, allowFrom := [utf16 ''393491234567'']\<rparr>)
     = Allowlist
   \<and> \<not> (0x30 \<le> (0x20 :: jschar) \<and> (0x20 :: jschar) \<le> 0x39)
   \<and> normalizePhone (utf16 ''+39 349 123 4567'') = utf16 ''393491234567''
   \<and> dispatched (processMessage (emptyMessage (utf16 ''+39 349 123 4567'') (utf16 ''text'')) []
         (testConfig\<lparr>dmPolicy := Allowlist, allowFrom := [utf16 ''393491234567'']\<rparr>)) \<noteq> []
   \<and> dispatched (processMessage (emptyMessage (utf16 ''39 349 123 4568'') (utf16 ''text'')) []
         (testConfig\<lparr>dmPolicy := Allowlist, allowFrom := [utf16 ''+39-349-123-4567'']\<rparr>)) = []
   \<and> dispatched (processMessage (emptyMessage (utf16 ''4567'') (utf16 ''text'')) []
         (testConfig\<lparr>dmPolicy := Allowlist, allowFrom := [utf16 ''393491234567'']\<rparr>)) = []"
  using allowlist_access_control
          [of "testConfig\<lparr>dmPolicy := Allowlist, allowFrom := [utf16 ''393491234567'']\<rparr>"
              "0x20" "emptyMessage (utf16 ''+39 349 123 4567'') (utf16 ''text'')" "[]"
              "utf16 ''+39 349 123 4567''"]
        allowlist_access_control
          [of "testConfig\<lparr>dmPolicy := Allowlist, allowFrom := [utf16 ''+39-349-123-4567'']\<rparr>"
              "0x20" "emptyMessage (utf16 ''39 349 123 4568'') (utf16 ''text'')" "[]"]
        allowlist_access_control
          [of "testConfig\<lparr>dmPolicy := Allowlist, allowFrom := [utf16 ''393491234567'']\<rparr>"
              "0x20" "emptyMessage (utf16 ''4567'') (utf16 ''text'')" "[]"]
  by (simp add: testConfig_def emptyMessage_def)

section \<open>Traces\<close>

lemma responses_append [simp]: "responses (xs @ ys) = responses xs @ responses ys"
  by (simp add: responses_def)

lemma dispatched_append [simp]: "dispatched (xs @ ys) = dispatched xs @ dispatched ys"
  by (simp add: dispatched_def)

lemma responses_simps [simp]:
  "responses [] = []"
  "responses (Respond st ct b # tr) = (st, b) # responses tr"
  "responses (Log l # tr) = responses tr"
  "responses (OnStatus i s r # tr) = responses tr"
  "responses (OnMessage m # tr) = responses tr"
  "responses (MarkAsRead i # tr) = responses tr"
  by (simp_all add: responses_def)

lemma dispatched_simps [simp]:
  "dispatched [] = []"
  "dispatched (Respond st ct b # tr) = dispatched tr"
  "dispatched (Log l # tr) = dispatched tr"
  "dispatched (OnStatus i s r # tr) = dispatched tr"
  "dispatched (OnMessage m # tr) = m # dispatched tr"
  "dispatched (MarkAsRead i # tr) = dispatched tr"
  by (simp_all add: dispatched_def)

lemma responses_concat_Nil:
  "(\<And>x. x \<in> set xs \<Longrightarrow> responses (f x) = []) \<Longrightarrow> responses (concat (map f xs)) = []"
  by (induction xs) simp_all

lemma responses_map_Log: "responses (map (\<lambda>x. Log l) xs) = []"
  by (induction xs) simp_all

lemma responses_map_OnStatus: "responses (map (\<lambda>s. OnStatus (f s) (g s) (h s)) xs) = []"
  by (induction xs) simp_all

lemma responses_processMessage: "responses (processMessage msg cts config) = []"
  by (simp add: processMessage_def Let_def)

lemma responses_processChange: "responses (processChange config hasOnStatus change) = []"
  by (simp add: processChange_def responses_map_Log responses_map_OnStatus
        responses_concat_Nil responses_processMessage split: option.splits)

section \<open>Signatures\<close>

lemma unat_hexDigit: "n < 16 \<Longrightarrow> unat (hexDigit n) = (if n < 10 then 48 + n else 87 + n)"
  by (simp add: hexDigit_def unat_word_ariths unat_of_nat)

lemma hexDigit_inj: "m < 16 \<Longrightarrow> n < 16 \<Longrightarrow> hexDigit m = hexDigit n \<Longrightarrow> m = n"
proof -
  assume m: "m < 16" and n: "n < 16" and e: "hexDigit m = hexDigit n"
  from e have "unat (hexDigit m) = unat (hexDigit n)" by simp
  then show "m = n" using m n by (simp add: unat_hexDigit split: if_splits)
qed

lemma byte_div_mod_eq:
  fixes a b :: "8 word"
  assumes "unat a div 16 = unat b div 16" and "unat a mod 16 = unat b mod 16"
  shows "a = b"
proof -
  have "unat a = 16 * (unat a div 16) + unat a mod 16" by simp
  also have "\<dots> = 16 * (unat b div 16) + unat b mod 16" using assms by simp
  also have "\<dots> = unat b" by simp
  finally show ?thesis by (simp add: word_unat_eq_iff)
qed

lemma unat_byte_div16: "unat (a :: 8 word) div 16 < 16"
proof -
  have "unat a < 256" using unsigned_less [of a, where 'a = nat] by simp
  then show ?thesis by simp
qed

lemma hexEncode_Cons:
  "hexEncode (a # as) = hexDigit (unat a div 16) # hexDigit (unat a mod 16) # hexEncode as"
  by (simp add: hexEncode_def)

lemma hexEncode_Nil: "hexEncode [] = []"
  by (simp add: hexEncode_def)

lemma hexEncode_inj: "hexEncode a = hexEncode b \<Longrightarrow> a = b"
proof (induction a arbitrary: b)
  case Nil
  then show ?case by (cases b) (simp_all add: hexEncode_Nil hexEncode_Cons)
next
  case (Cons x xs)
  then obtain y ys where b: "b = y # ys"
    by (cases b) (simp_all add: hexEncode_Nil hexEncode_Cons)
  from Cons.prems have hi: "hexDigit (unat x div 16) = hexDigit (unat y div 16)"
    and lo: "hexDigit (unat x mod 16) = hexDigit (unat y mod 16)"
    and rest: "hexEncode xs = hexEncode ys"
    by (simp_all add: b hexEncode_Cons)
  have "unat x div 16 = unat y div 16"
    using hi by (rule hexDigit_inj [OF unat_byte_div16 unat_byte_div16])
  moreover have "unat x mod 16 = unat y mod 16"
    using lo by (rule hexDigit_inj [rotated 2]) simp_all
  ultimately have "x = y" by (rule byte_div_mod_eq)
  with Cons.IH [OF rest] show ?case by (simp add: b)
qed

lemma isAscii_hexEncode: "isAscii (hexEncode bs)"
proof -
  have "unat (hexDigit n) < 128" if "n < 16" for n
    using that by (simp add: unat_hexDigit)
  then show ?thesis
    by (induction bs) (simp_all add: isAscii_def hexEncode_Nil hexEncode_Cons unat_byte_div16)
qed

lemma isAscii_append: "isAscii (s @ t) \<longleftrightarrow> isAscii s \<and> isAscii t"
  by (auto simp: isAscii_def)

lemma isAscii_expectedSignature: "isAscii (expectedSignature hmac b s)"
  using isAscii_hexEncode [of "hmac (utf8Encode s) (utf8Encode b)"]
  by (simp add: expectedSignature_def isAscii_def)

lemma utf8Bytes_ascii: "unat c < 128 \<Longrightarrow> utf8Bytes (unat (c :: jschar)) = [ucast c]"
  by (simp add: utf8Bytes_def)

lemma not_surrogate_ascii:
  "unat c < 128 \<Longrightarrow> \<not> isHighSurrogate c \<and> \<not> isLowSurrogate c"
  by (simp add: isHighSurrogate_def isLowSurrogate_def word_le_nat_alt)

lemma utf8Encode_ascii: "isAscii s \<Longrightarrow> utf8Encode s = map ucast s"
  by (induction s rule: utf8Encode.induct)
     (simp_all add: isAscii_def utf8Bytes_ascii not_surrogate_ascii)

lemma ucast_ascii_inj:
  fixes c d :: jschar
  assumes "unat c < 128" and "unat d < 128" and "(ucast c :: 8 word) = ucast d"
  shows "c = d"
proof -
  have "unat (ucast c :: 8 word) = unat (ucast d :: 8 word)" using assms(3) by simp
  then have "unat c mod 256 = unat d mod 256"
    by (simp add: unsigned_ucast_eq take_bit_eq_mod)
  then show ?thesis using assms(1,2) by (simp add: word_unat_eq_iff)
qed

lemma utf8Encode_ascii_inj:
  assumes "isAscii s" and "isAscii t" and "utf8Encode s = utf8Encode t"
  shows "s = t"
proof -
  have "map ucast s = (map ucast t :: 8 word list)"
    using assms by (simp add: utf8Encode_ascii)
  then show ?thesis using assms(1,2)
  proof (induction s arbitrary: t)
    case Nil
    then show ?case by simp
  next
    case (Cons c cs)
    then obtain d ds where t: "t = d # ds" by (cases t) auto
    with Cons.prems have "c = d"
      by (auto simp: isAscii_def intro: ucast_ascii_inj)
    moreover have "cs = ds"
      using Cons.prems by (intro Cons.IH) (auto simp: t isAscii_def)
    ultimately show ?case by (simp add: t)
  qed
qed


lemma expectedSignature_inj:
  "expectedSignature hmac b s = expectedSignature hmac b' s' \<longleftrightarrow>
     hmac (utf8Encode s) (utf8Encode b) = hmac (utf8Encode s') (utf8Encode b')"
  by (auto simp: expectedSignature_def dest: hexEncode_inj)

lemma compareSignatures_eq:
  "compareSignatures h e = Inr (utf8Encode h = utf8Encode e)"
  by (auto simp: compareSignatures_def timingSafeEqual_def Let_def)

lemma expectedSignature_nonempty: "expectedSignature hmac b s \<noteq> []"
  by (simp add: expectedSignature_def)

text \<open>
  A header that is itself a signature, of any body under any key, verifies exactly when
  the two digests are equal.
\<close>

lemma verify_signed:
  "verifyWebhookSignature hmac b' (Some (expectedSignature hmac b s)) s' \<longleftrightarrow>
     s' \<noteq> [] \<and> hmac (utf8Encode s) (utf8Encode b) = hmac (utf8Encode s') (utf8Encode b')"
proof -
  have "utf8Encode (expectedSignature hmac b s) = utf8Encode (expectedSignature hmac b' s')
          \<longleftrightarrow> expectedSignature hmac b s = expectedSignature hmac b' s'"
    using utf8Encode_ascii_inj [OF isAscii_expectedSignature isAscii_expectedSignature]
    by auto
  then show ?thesis
    by (auto simp: verifyWebhookSignature_def compareSignatures_eq expectedSignature_nonempty
          expectedSignature_inj)
qed

section \<open>The fixtures' signatures\<close>

lemma testSecret_nonempty: "testSecret \<noteq> []"
  by (simp add: testSecret_def)

lemma testSecret_key_nonempty: "utf8Encode testSecret \<noteq> []"
  by (simp add: testSecret_def utf8Bytes_def isHighSurrogate_def isLowSurrogate_def)

lemma bodies_differ: "tamperedBody \<noteq> helloBody"
  by (simp add: helloBody_def tamperedBody_def)

lemma isAscii_bodies: "isAscii helloBody" "isAscii tamperedBody"
  by (simp_all add: isAscii_def helloBody_def tamperedBody_def bodyPrefix_def bodySuffix_def)

lemma utf8_bodies_differ: "utf8Encode tamperedBody \<noteq> utf8Encode helloBody"
  using utf8Encode_ascii_inj [OF isAscii_bodies(2) isAscii_bodies(1)] bodies_differ by blast

lemma hmacTable_hello:
  "hmacTable (utf8Encode testSecret) (utf8Encode helloBody) =
     [0x5A, 0x1A, 0xA2, 0xEE, 0x5B, 0x21, 0x7B, 0x31, 0xEF, 0x0A, 0x3F, 0x54,
      0xDB, 0x2B, 0x0F, 0x01, 0x5A, 0xB6, 0x5C, 0xC9, 0x85, 0x20, 0x0F, 0x9A,
      0x3E, 0x6B, 0x43, 0x3A, 0x6E, 0x29, 0x6F, 0x48]"
  by (simp add: hmacTable_def)

lemma hmacTable_empty_key:
  "hmacTable [] (utf8Encode helloBody) =
     [0x5A, 0x12, 0x7D, 0x66, 0xD3, 0x7F, 0x5A, 0x78, 0xFB, 0x27, 0x94, 0xD2,
      0xCA, 0x16, 0x40, 0xE4, 0x53, 0x3C, 0x1B, 0x57, 0xCC, 0xAD, 0x1A, 0xEE,
      0x08, 0x36, 0x54, 0xEF, 0x68, 0xE3, 0x1C, 0x21]"
  using testSecret_key_nonempty by (simp add: hmacTable_def)

lemma hmacTable_tampered:
  "hmacTable (utf8Encode testSecret) (utf8Encode tamperedBody) =
     [0x47, 0x17, 0x4F, 0x58, 0x11, 0x0F, 0xBF, 0x45, 0xFC, 0x39, 0x5B, 0x36,
      0x41, 0x9E, 0xC0, 0x9B, 0x03, 0xF4, 0x0B, 0x34, 0x1D, 0x0F, 0x19, 0xB0,
      0x09, 0xAA, 0xD0, 0xA7, 0xA7, 0x47, 0xA8, 0x38]"
  using testSecret_key_nonempty utf8_bodies_differ by (simp add: hmacTable_def)

lemma hello_signature_valid:
  "verifyWebhookSignature hmacTable helloBody
     (Some (expectedSignature hmacTable helloBody testSecret)) testSecret"
  by (simp add: verify_signed testSecret_nonempty)

lemma hello_signature_forged:
  "\<not> verifyWebhookSignature hmacTable helloBody
       (Some (expectedSignature hmacTable helloBody [])) testSecret"
  by (simp add: verify_signed hmacTable_hello hmacTable_empty_key testSecret_nonempty)

section \<open>Signature round trip and rejection\<close>

text \<open>The signature that verification computes for an empty secret does not verify.\<close>

theorem signature_roundtrip_counterexample:
  "\<not> verifyWebhookSignature hmacTable helloBody
       (Some (expectedSignature hmacTable helloBody [])) []"
  by (simp add: verifyWebhookSignature_def)

text \<open>
  C2, amended. For every body and every non-empty secret, the body verifies against
  "sha256=" followed by the lowercase hexadecimal HMAC-SHA256 of the body under the
  secret. Any other body, one that differs in a single byte included, is rejected against
  that signature whenever its HMAC-SHA256 under the secret differs from the original's.
\<close>

theorem signature_roundtrip:
  assumes "s \<noteq> []"
  shows "verifyWebhookSignature hmac b (Some (expectedSignature hmac b s)) s
       \<and> (hmac (utf8Encode s) (utf8Encode b') \<noteq> hmac (utf8Encode s) (utf8Encode b) \<longrightarrow>
            \<not> verifyWebhookSignature hmac b' (Some (expectedSignature hmac b s)) s)"
  using assms by (auto simp: verify_signed)

theorem signature_roundtrip_witness:
  "testSecret \<noteq> []
   \<and> verifyWebhookSignature hmacTable helloBody
       (Some (expectedSignature hmacTable helloBody testSecret)) testSecret
   \<and> helloBody = bodyPrefix @ utf16 ''!'' @ bodySuffix
   \<and> tamperedBody = bodyPrefix @ utf16 ''?'' @ bodySuffix
   \<and> hmacTable (utf8Encode testSecret) (utf8Encode tamperedBody)
       \<noteq> hmacTable (utf8Encode testSecret) (utf8Encode helloBody)
   \<and> \<not> verifyWebhookSignature hmacTable tamperedBody
       (Some (expectedSignature hmacTable helloBody testSecret)) testSecret"
proof -
  note r = signature_roundtrip [OF testSecret_nonempty, of hmacTable helloBody tamperedBody]
  have d: "hmacTable (utf8Encode testSecret) (utf8Encode tamperedBody)
             \<noteq> hmacTable (utf8Encode testSecret) (utf8Encode helloBody)"
    by (simp add: hmacTable_hello hmacTable_tampered)
  have v: "verifyWebhookSignature hmacTable helloBody
       (Some (expectedSignature hmacTable helloBody testSecret)) testSecret"
    using r by blast
  have n: "\<not> verifyWebhookSignature hmacTable tamperedBody
       (Some (expectedSignature hmacTable helloBody testSecret)) testSecret"
    using r d by blast
  show ?thesis
    by (intro conjI testSecret_nonempty v d n helloBody_def tamperedBody_def)
qed

lemma length_hexEncode: "length (hexEncode bs) = 2 * length bs"
  by (induction bs) (simp_all add: hexEncode_Nil hexEncode_Cons)

lemma utf8_expectedSignature:
  "utf8Encode (expectedSignature hmac b s) = map ucast (expectedSignature hmac b s)"
  by (rule utf8Encode_ascii [OF isAscii_expectedSignature])

lemma length_utf8_expectedSignature:
  "length (utf8Encode (expectedSignature hmac b s))
     = 7 + 2 * length (hmac (utf8Encode s) (utf8Encode b))"
  by (simp add: utf8_expectedSignature) (simp add: expectedSignature_def length_hexEncode)

text \<open>
  C3. \<open>verifyWebhookSignature\<close> never throws: the comparison inside its \<open>try\<close> block never
  raises. It returns false when the secret is empty, when the header is absent, when the
  header and the computed signature differ in byte length, and when they have the same
  length and differ at some byte.
\<close>

theorem verify_rejects_without_throwing:
  "(\<forall>e. compareSignatures h (expectedSignature hmac b s) \<noteq> Inl e)
   \<and> \<not> verifyWebhookSignature hmac b hdr []
   \<and> \<not> verifyWebhookSignature hmac b None s
   \<and> (length (utf8Encode h) \<noteq> length (utf8Encode (expectedSignature hmac b s)) \<longrightarrow>
        \<not> verifyWebhookSignature hmac b (Some h) s)
   \<and> (length (utf8Encode h) = length (utf8Encode (expectedSignature hmac b s))
        \<and> (\<exists>i < length (utf8Encode h).
              utf8Encode h ! i \<noteq> utf8Encode (expectedSignature hmac b s) ! i) \<longrightarrow>
        \<not> verifyWebhookSignature hmac b (Some h) s)"
  by (cases hdr) (auto simp: verifyWebhookSignature_def compareSignatures_eq)


theorem verify_rejects_without_throwing_witness:
  "length (utf8Encode (utf16 ''not-a-valid-sig''))
     \<noteq> length (utf8Encode (expectedSignature hmacTable helloBody testSecret))
   \<and> \<not> verifyWebhookSignature hmacTable helloBody (Some (utf16 ''not-a-valid-sig'')) testSecret
   \<and> length (utf8Encode (expectedSignature hmacTable helloBody []))
     = length (utf8Encode (expectedSignature hmacTable helloBody testSecret))
   \<and> utf8Encode (expectedSignature hmacTable helloBody []) ! 10
     \<noteq> utf8Encode (expectedSignature hmacTable helloBody testSecret) ! 10
   \<and> \<not> verifyWebhookSignature hmacTable helloBody
         (Some (expectedSignature hmacTable helloBody [])) testSecret"
proof -
  note r1 = verify_rejects_without_throwing
              [of "utf16 ''not-a-valid-sig''" hmacTable helloBody testSecret None,
               THEN conjunct2, THEN conjunct2, THEN conjunct2, THEN conjunct1]
  note r2 = verify_rejects_without_throwing
              [of "expectedSignature hmacTable helloBody []" hmacTable helloBody testSecret
                  None,
               THEN conjunct2, THEN conjunct2, THEN conjunct2, THEN conjunct2]
  have l1: "length (utf8Encode (utf16 ''not-a-valid-sig''))
     \<noteq> length (utf8Encode (expectedSignature hmacTable helloBody testSecret))"
    by (simp add: length_utf8_expectedSignature hmacTable_hello utf8Bytes_def
          isHighSurrogate_def isLowSurrogate_def)
  have l2: "length (utf8Encode (expectedSignature hmacTable helloBody []))
     = length (utf8Encode (expectedSignature hmacTable helloBody testSecret))"
    by (simp add: length_utf8_expectedSignature hmacTable_hello hmacTable_empty_key)
  have n: "utf8Encode (expectedSignature hmacTable helloBody []) ! 10
     \<noteq> utf8Encode (expectedSignature hmacTable helloBody testSecret) ! 10"
    by (simp add: expectedSignature_def hmacTable_hello hmacTable_empty_key hexEncode_def
          hexDigit_def utf8Bytes_def isHighSurrogate_def isLowSurrogate_def)
  have i: "10 < length (utf8Encode (expectedSignature hmacTable helloBody []))"
    by (simp add: length_utf8_expectedSignature hmacTable_empty_key)
  have v1: "\<not> verifyWebhookSignature hmacTable helloBody (Some (utf16 ''not-a-valid-sig''))
              testSecret"
    using r1 l1 by (rule mp)
  have "\<exists>i < length (utf8Encode (expectedSignature hmacTable helloBody [])).
          utf8Encode (expectedSignature hmacTable helloBody []) ! i
          \<noteq> utf8Encode (expectedSignature hmacTable helloBody testSecret) ! i"
    using n i by (intro exI [of _ 10] conjI)
  with l2 have v2: "\<not> verifyWebhookSignature hmacTable helloBody
         (Some (expectedSignature hmacTable helloBody [])) testSecret"
    by (intro r2 [THEN mp] conjI)
  show ?thesis
    by (intro conjI l1 v1 l2 n v2)
qed

section \<open>The listener's URL\<close>

text \<open>
  What the listener does once the constructor has given the URL, and how it ends where
  the constructor throws.
\<close>

lemma handleRequest_parsed:
  assumes "parseUrl (case requestUrl req of Some u \<Rightarrow> u | None \<Rightarrow> utf16 ''/'')
             (utf16 ''http://''
              @ (case hostHeader req of Some h \<Rightarrow> h | None \<Rightarrow> utf16 ''localhost''))
           = Some (path, params)"
  shows "handleRequest parseUrl hmac parse config h req =
     Inr (if httpMethod req = utf16 ''GET'' \<and> path = webhookPath config
          then handleVerification params config
          else if httpMethod req = utf16 ''POST'' \<and> path = webhookPath config
          then handleIncoming hmac parse req config h
          else if httpMethod req = utf16 ''GET'' \<and> path = utf16 ''/health''
          then [Respond 200 (Some (utf16 ''application/json'')) healthBody]
          else [Respond 404 None (utf16 ''Not found'')])"
  using assms by (simp add: handleRequest_def)

lemma handleRequest_throws:
  assumes "parseUrl (case requestUrl req of Some u \<Rightarrow> u | None \<Rightarrow> utf16 ''/'')
             (utf16 ''http://''
              @ (case hostHeader req of Some h \<Rightarrow> h | None \<Rightarrow> utf16 ''localhost''))
           = None"
  shows "handleRequest parseUrl hmac parse config h req = Inl TypeError"
  using assms by (simp add: handleRequest_def)

section \<open>POST: the acknowledgement and the signature gate\<close>

lemma handleIncoming_first:
  "handleIncoming hmac parse req config h =
     Respond 200 (Some (utf16 ''text/plain'')) (utf16 ''OK'')
     # tl (handleIncoming hmac parse req config h)"
  by (simp add: handleIncoming_def Let_def)

lemma responses_handleIncoming:
  "responses (handleIncoming hmac parse req config h) = [(200, utf16 ''OK'')]"
  by (simp add: handleIncoming_def Let_def responses_concat_Nil responses_processChange
      split: option.splits)

lemma dispatched_handleIncoming_unverified:
  "appSecret config \<noteq> [] \<Longrightarrow>
   \<not> verifyWebhookSignature hmac (concat (bodyChunks req)) (signature256 req)
       (appSecret config) \<Longrightarrow>
   dispatched (handleIncoming hmac parse req config h) = []"
  by (simp add: handleIncoming_def Let_def)

text \<open>
  Where the listener can build the URL, a POST on the configured webhook path is answered
  200 with the body "OK": that response is the first effect, before the signature is
  verified and before the body is parsed, whatever HMAC and \<open>JSON.parse\<close> give, and it is
  the only response. With an \<open>appSecret\<close> configured and a signature that does not verify,
  no message reaches the \<open>onMessage\<close> callback.
\<close>

lemma post_acknowledged_then_gated:
  assumes "httpMethod req = utf16 ''POST''"
      and "parseUrl (case requestUrl req of Some u \<Rightarrow> u | None \<Rightarrow> utf16 ''/'')
             (utf16 ''http://''
              @ (case hostHeader req of Some h \<Rightarrow> h | None \<Rightarrow> utf16 ''localhost''))
           = Some (webhookPath config, params)"
  shows "\<exists>rest. handleRequest parseUrl hmac parse config h req
            = Inr (Respond 200 (Some (utf16 ''text/plain'')) (utf16 ''OK'') # rest)
          \<and> responses (Respond 200 (Some (utf16 ''text/plain'')) (utf16 ''OK'') # rest)
              = [(200, utf16 ''OK'')]
          \<and> (appSecret config \<noteq> []
               \<and> \<not> verifyWebhookSignature hmac (concat (bodyChunks req)) (signature256 req)
                     (appSecret config)
             \<longrightarrow> dispatched rest = [])"
proof -
  have r: "handleRequest parseUrl hmac parse config h req
             = Inr (handleIncoming hmac parse req config h)"
    using assms by (simp add: handleRequest_def)
  have f: "handleIncoming hmac parse req config h =
     Respond 200 (Some (utf16 ''text/plain'')) (utf16 ''OK'')
     # tl (handleIncoming hmac parse req config h)"
    by (rule handleIncoming_first)
  show ?thesis
  proof (intro exI [of _ "tl (handleIncoming hmac parse req config h)"] conjI impI)
    show "handleRequest parseUrl hmac parse config h req
            = Inr (Respond 200 (Some (utf16 ''text/plain'')) (utf16 ''OK'')
                   # tl (handleIncoming hmac parse req config h))"
      using r f by simp
    show "responses (Respond 200 (Some (utf16 ''text/plain'')) (utf16 ''OK'')
                     # tl (handleIncoming hmac parse req config h)) = [(200, utf16 ''OK'')]"
      using responses_handleIncoming [of hmac parse req config h] f by simp
    assume "appSecret config \<noteq> []
               \<and> \<not> verifyWebhookSignature hmac (concat (bodyChunks req)) (signature256 req)
                     (appSecret config)"
    then have "dispatched (handleIncoming hmac parse req config h) = []"
      by (simp add: dispatched_handleIncoming_unverified)
    then show "dispatched (tl (handleIncoming hmac parse req config h)) = []"
      using f by (metis dispatched_simps(2))
  qed
qed

lemma hello_forged_acknowledged:
  "handleRequest urlTable hmacTable parseHello testConfig False
     (postRequest helloBody (Some (expectedSignature hmacTable helloBody [])))
   = Inr [Respond 200 (Some (utf16 ''text/plain'')) (utf16 ''OK''), Log Warn]"
  using hello_signature_forged
  by (simp add: handleRequest_def postRequest_def urlTable_def testConfig_def
        handleIncoming_def testSecret_nonempty)

text \<open>
  C1 does not hold of the listener: a POST on the configured webhook path whose \<open>Host\<close>
  header is empty is not answered 200 with the body "OK". The listener builds its URL
  from the base "http://", the constructor throws, and the listener ends with that
  exception before \<open>handleIncoming\<close> is reached: no response is written, and nothing is
  dispatched. The same body and signature sent with the \<open>Host\<close> of the tests are
  answered 200 "OK" and dispatched.
\<close>

theorem post_empty_host_unanswered:
  "httpMethod ((postRequest helloBody
       (Some (expectedSignature hmacTable helloBody testSecret))) \<lparr> hostHeader := Some [] \<rparr>)
     = utf16 ''POST''
   \<and> requestUrl ((postRequest helloBody
       (Some (expectedSignature hmacTable helloBody testSecret))) \<lparr> hostHeader := Some [] \<rparr>)
     = Some (webhookPath testConfig)
   \<and> handleRequest urlTable hmacTable parseHello testConfig False
       ((postRequest helloBody
           (Some (expectedSignature hmacTable helloBody testSecret))) \<lparr> hostHeader := Some [] \<rparr>)
     = Inl TypeError
   \<and> responses (effectsOf (handleRequest urlTable hmacTable parseHello testConfig False
       ((postRequest helloBody
           (Some (expectedSignature hmacTable helloBody testSecret)))
          \<lparr> hostHeader := Some [] \<rparr>)))
     = []
   \<and> responses (effectsOf (handleRequest urlTable hmacTable parseHello testConfig False
       (postRequest helloBody (Some (expectedSignature hmacTable helloBody testSecret)))))
     = [(200, utf16 ''OK'')]"
proof -
  have a: "handleRequest urlTable hmacTable parseHello testConfig False
       ((postRequest helloBody
           (Some (expectedSignature hmacTable helloBody testSecret))) \<lparr> hostHeader := Some [] \<rparr>)
     = Inl TypeError"
    by (simp add: handleRequest_def postRequest_def urlTable_def)
  have b: "responses (effectsOf (handleRequest urlTable hmacTable parseHello testConfig False
       (postRequest helloBody (Some (expectedSignature hmacTable helloBody testSecret)))))
     = [(200, utf16 ''OK'')]"
    by (simp add: handleRequest_def postRequest_def urlTable_def testConfig_def
          effectsOf_def responses_handleIncoming)
  show ?thesis
    using a b by (simp add: effectsOf_def) (simp add: postRequest_def testConfig_def)
qed

section \<open>GET: the verification challenge\<close>

lemma responses_handleVerification:
  "responses (handleVerification params config) =
     (case map_of params (utf16 ''hub.challenge'') of
        Some c \<Rightarrow>
          if map_of params (utf16 ''hub.mode'') = Some (utf16 ''subscribe'')
             \<and> map_of params (utf16 ''hub.verify_token'') = Some (verifyToken config) \<and> c \<noteq> []
          then [(200, c)] else [(403, utf16 ''Forbidden'')]
      | None \<Rightarrow> [(403, utf16 ''Forbidden'')])"
  by (simp add: handleVerification_def Let_def split: option.splits)

lemma verification_responses:
  "responses (effectsOf (handleRequest urlTable hmacTable parseHello testConfig False
     (getRequest (utf16 ''test-verify-token'') (utf16 ''abc123'')))) = [(200, utf16 ''abc123'')]"
  "responses (effectsOf (handleRequest urlTable hmacTable parseHello testConfig False
     (getRequest (utf16 ''wrong-token'') (utf16 ''abc123'')))) = [(403, utf16 ''Forbidden'')]"
  "responses (effectsOf (handleRequest urlTable hmacTable parseHello testConfig False
     (getRequest (utf16 ''test-verify-token'') []))) = [(403, utf16 ''Forbidden'')]"
  by (simp_all add: handleRequest_def getRequest_def effectsOf_def testConfig_def
        responses_handleVerification urlTable_def verificationUrl_def
        verificationParams_def)

text \<open>
  A verification request with the right mode and token whose challenge parameter is
  present and empty is refused.
\<close>

theorem get_verification_counterexample:
  "map_of (verificationParams (utf16 ''test-verify-token'') []) (utf16 ''hub.challenge'')
     = Some []
   \<and> urlTable (verificationUrl (utf16 ''test-verify-token'') [])
       (utf16 ''http://'' @ utf16 ''localhost:13100'')
     = Some (webhookPath testConfig, verificationParams (utf16 ''test-verify-token'') [])
   \<and> responses (effectsOf (handleRequest urlTable hmacTable parseHello testConfig False
        (getRequest (utf16 ''test-verify-token'') [])))
     = [(403, utf16 ''Forbidden'')]"
  using verification_responses(3)
  by (simp add: urlTable_def verificationUrl_def verificationParams_def testConfig_def)

text \<open>
  C8, amended. For every GET request that the listener parses to the configured webhook
  path, the response is 200 with the challenge as its body if and only if \<open>hub.mode\<close> is
  "subscribe", \<open>hub.verify_token\<close> is the configured token and \<open>hub.challenge\<close> is present
  and not empty; in every other case the response is 403.
\<close>

theorem get_verification:
  assumes "httpMethod req = utf16 ''GET''"
      and "parseUrl (case requestUrl req of Some u \<Rightarrow> u | None \<Rightarrow> utf16 ''/'')
             (utf16 ''http://''
              @ (case hostHeader req of Some h \<Rightarrow> h | None \<Rightarrow> utf16 ''localhost''))
           = Some (webhookPath config, params)"
  shows "\<exists>tr. handleRequest parseUrl hmac parse config h req = Inr tr
     \<and> responses tr =
        (if map_of params (utf16 ''hub.mode'') = Some (utf16 ''subscribe'')
            \<and> map_of params (utf16 ''hub.verify_token'') = Some (verifyToken config)
            \<and> (\<exists>c. map_of params (utf16 ''hub.challenge'') = Some c \<and> c \<noteq> [])
         then [(200, the (map_of params (utf16 ''hub.challenge'')))]
         else [(403, utf16 ''Forbidden'')])"
  using assms
  by (auto simp: handleRequest_def responses_handleVerification split: option.splits)

theorem get_verification_witness:
  "httpMethod (getRequest (utf16 ''test-verify-token'') (utf16 ''abc123'')) = utf16 ''GET''
   \<and> urlTable (verificationUrl (utf16 ''test-verify-token'') (utf16 ''abc123''))
       (utf16 ''http://'' @ utf16 ''localhost:13100'')
     = Some (webhookPath testConfig,
             verificationParams (utf16 ''test-verify-token'') (utf16 ''abc123''))
   \<and> responses (effectsOf (handleRequest urlTable hmacTable parseHello testConfig False
        (getRequest (utf16 ''test-verify-token'') (utf16 ''abc123''))))
     = [(200, utf16 ''abc123'')]
   \<and> responses (effectsOf (handleRequest urlTable hmacTable parseHello testConfig False
        (getRequest (utf16 ''wrong-token'') (utf16 ''abc123''))))
     = [(403, utf16 ''Forbidden'')]"
proof -
  have u1: "urlTable
      (case requestUrl (getRequest (utf16 ''test-verify-token'') (utf16 ''abc123'')) of
         Some u \<Rightarrow> u | None \<Rightarrow> utf16 ''/'')
      (utf16 ''http://''
       @ (case hostHeader (getRequest (utf16 ''test-verify-token'') (utf16 ''abc123'')) of
            Some h \<Rightarrow> h | None \<Rightarrow> utf16 ''localhost''))
     = Some (webhookPath testConfig,
             verificationParams (utf16 ''test-verify-token'') (utf16 ''abc123''))"
    by (simp add: getRequest_def testConfig_def urlTable_def verificationUrl_def
          verificationParams_def)
  have m: "httpMethod (getRequest (utf16 ''test-verify-token'') (utf16 ''abc123''))
             = utf16 ''GET''"
    by (simp add: getRequest_def)
  from get_verification
         [of "getRequest (utf16 ''test-verify-token'') (utf16 ''abc123'')" urlTable testConfig
             "verificationParams (utf16 ''test-verify-token'') (utf16 ''abc123'')"
             hmacTable parseHello False, OF m u1]
  have "responses (effectsOf (handleRequest urlTable hmacTable parseHello testConfig False
        (getRequest (utf16 ''test-verify-token'') (utf16 ''abc123''))))
     = [(200, utf16 ''abc123'')]"
    by (auto simp: effectsOf_def verificationParams_def testConfig_def)
  then show ?thesis
    using m verification_responses(2)
    by (simp add: testConfig_def urlTable_def verificationUrl_def verificationParams_def)
qed

section \<open>Normalized messages\<close>

lemma trim_eq_Nil: "trim s = [] \<longleftrightarrow> (\<forall>x \<in> set s. isWhiteSpace x)"
proof -
  have a: "(\<forall>x \<in> set (dropWhile isWhiteSpace s). isWhiteSpace x)
             \<longleftrightarrow> dropWhile isWhiteSpace s = []"
  proof
    assume h: "\<forall>x \<in> set (dropWhile isWhiteSpace s). isWhiteSpace x"
    show "dropWhile isWhiteSpace s = []"
    proof (rule ccontr)
      assume n: "dropWhile isWhiteSpace s \<noteq> []"
      then have "\<not> isWhiteSpace (hd (dropWhile isWhiteSpace s))"
        by (rule hd_dropWhile)
      moreover have "hd (dropWhile isWhiteSpace s) \<in> set (dropWhile isWhiteSpace s)"
        using n by simp
      ultimately show False using h by blast
    qed
  qed (auto dest: set_dropWhileD)
  show ?thesis
    by (simp add: trim_def trimEnd_def trimStart_def dropWhile_eq_Nil_conv a)
qed

lemma locationText_nonempty: "locationText l \<noteq> []"
proof -
  have "\<not> isWhiteSpace 0x5B" by (simp add: isWhiteSpace_def)
  then show ?thesis
    unfolding locationText_def trim_eq_Nil by auto
qed

lemma extract_media_or_reply:
  "ec_media (extractMessageContent msg) = None \<or> ec_interactiveReply (extractMessageContent msg) = None"
  by (simp add: extractMessageContent_def content_def interactiveContent_def split: option.splits)

lemma dispatched_processMessage_cases:
  "dispatched (processMessage msg cts config) = [] \<or>
   (\<exists>name. dispatched (processMessage msg cts config) =
      [\<lparr> sender = msg_from msg, senderName = name,
         msgText = ec_text (extractMessageContent msg), messageId = msg_id msg,
         timestamp = msg_timestamp msg, kind = msg_type msg,
         media = ec_media (extractMessageContent msg),
         interactiveReply = ec_interactiveReply (extractMessageContent msg),
         quotedMessageId = map_option cx_id (msg_context msg) \<rparr>])"
  by (simp add: processMessage_def Let_def)

lemma processMessage_normalized:
  "m \<in> set (dispatched (processMessage msg cts config)) \<Longrightarrow>
     msgText m = ec_text (extractMessageContent msg)
     \<and> media m = ec_media (extractMessageContent msg)
     \<and> interactiveReply m = ec_interactiveReply (extractMessageContent msg)"
  using dispatched_processMessage_cases [of msg cts config] by auto

lemma dispatched_concat:
  "set (dispatched (concat (map f xs))) = (\<Union>x \<in> set xs. set (dispatched (f x)))"
  by (induction xs) simp_all

lemma dispatched_map_Log: "dispatched (map (\<lambda>x. Log l) xs) = []"
  by (induction xs) simp_all

lemma dispatched_map_OnStatus: "dispatched (map (\<lambda>s. OnStatus (f s) (g s) (h s)) xs) = []"
  by (induction xs) simp_all

lemma processChange_source:
  "m \<in> set (dispatched (processChange config h change)) \<Longrightarrow>
     \<exists>msg cts. m \<in> set (dispatched (processMessage msg cts config))"
  by (auto simp: processChange_def dispatched_map_Log dispatched_map_OnStatus dispatched_concat
      split: if_splits option.splits)

lemma handleIncoming_source:
  "m \<in> set (dispatched (handleIncoming hmac parse req config h)) \<Longrightarrow>
     \<exists>msg cts. m \<in> set (dispatched (processMessage msg cts config))"
  by (auto simp: handleIncoming_def Let_def dispatched_concat
      split: if_splits option.splits dest: processChange_source)

lemma handleRequest_source:
  "m \<in> set (dispatched (effectsOf (handleRequest parseUrl hmac parse config h req))) \<Longrightarrow>
     \<exists>msg cts. m \<in> set (dispatched (processMessage msg cts config))"
  by (auto simp: handleRequest_def effectsOf_def handleVerification_def Let_def
      split: if_splits option.splits dest: handleIncoming_source)

lemma hello_dispatched:
  "dispatched (effectsOf (handleRequest urlTable hmacTable parseHello testConfig False
     (postRequest helloBody (Some (expectedSignature hmacTable helloBody testSecret)))))
   = [\<lparr> sender = utf16 ''393491234567'', senderName = utf16 ''Test User'',
        msgText = utf16 ''Hello bot!'', messageId = utf16 ''wamid.test123'',
        timestamp = utf16 ''1700000000'', kind = utf16 ''text'', media = None,
        interactiveReply = None, quotedMessageId = None \<rparr>]"
  using hello_signature_valid
  by (simp add: handleRequest_def effectsOf_def postRequest_def urlTable_def testConfig_def
       handleIncoming_def parseHello_def helloPayload_def processChange_def
       processMessage_def emptyMessage_def extractMessageContent_def content_def)

text \<open>
  C9. A message handed to the dispatcher never has both \<open>media\<close> and
  \<open>interactiveReply\<close>: one of them or neither. Its text is always the text that
  \<open>extractMessageContent\<close> derives from the message, of whatever kind; this holds for what
  \<open>processMessage\<close> dispatches and for everything a request dispatches.
\<close>

theorem inbound_media_or_reply:
  "(\<forall>m \<in> set (dispatched (processMessage msg cts config)).
      (media m = None \<or> interactiveReply m = None)
      \<and> msgText m = ec_text (extractMessageContent msg) \<and> kind m = msg_type msg)
   \<and> (\<forall>m \<in> set (dispatched (effectsOf (handleRequest parseUrl hmac parse config h req))).
        (media m = None \<or> interactiveReply m = None)
        \<and> (\<exists>msg'. msgText m = ec_text (extractMessageContent msg') \<and> kind m = msg_type msg'))"
proof -
  have one: "(media m = None \<or> interactiveReply m = None)
      \<and> msgText m = ec_text (extractMessageContent msg') \<and> kind m = msg_type msg'"
    if d: "m \<in> set (dispatched (processMessage msg' cts' config))" for m msg' cts'
  proof -
    have "kind m = msg_type msg'"
      using d dispatched_processMessage_cases [of msg' cts' config] by auto
    then show ?thesis
      using processMessage_normalized [OF d] extract_media_or_reply [of msg'] by auto
  qed
  show ?thesis
  proof (rule conjI; rule ballI)
    fix m assume "m \<in> set (dispatched (processMessage msg cts config))"
    then show "(media m = None \<or> interactiveReply m = None)
      \<and> msgText m = ec_text (extractMessageContent msg) \<and> kind m = msg_type msg"
      by (rule one)
  next
    fix m assume "m \<in> set (dispatched (effectsOf (handleRequest parseUrl hmac parse config h req)))"
    then obtain msg' cts' where "m \<in> set (dispatched (processMessage msg' cts' config))"
      using handleRequest_source by blast
    then have "(media m = None \<or> interactiveReply m = None)
        \<and> msgText m = ec_text (extractMessageContent msg') \<and> kind m = msg_type msg'"
      by (rule one)
    then show "(media m = None \<or> interactiveReply m = None)
        \<and> (\<exists>msg'. msgText m = ec_text (extractMessageContent msg') \<and> kind m = msg_type msg')"
      by auto
  qed
qed

theorem inbound_media_or_reply_witness:
  "dispatched (processMessage (imageMessage (Some (utf16 ''nice''))) [] testConfig) \<noteq> []
   \<and> media (hd (dispatched (processMessage (imageMessage (Some (utf16 ''nice''))) []
                testConfig))) \<noteq> None
   \<and> interactiveReply (hd (dispatched (processMessage (imageMessage (Some (utf16 ''nice'')))
                [] testConfig))) = None
   \<and> msgText (hd (dispatched (processMessage (imageMessage (Some (utf16 ''nice''))) []
                testConfig))) = utf16 ''nice''
   \<and> dispatched (effectsOf (handleRequest urlTable hmacTable parseHello testConfig False
        (postRequest helloBody
           (Some (expectedSignature hmacTable helloBody testSecret)))))
      \<noteq> []"
  using inbound_media_or_reply
          [of "imageMessage (Some (utf16 ''nice''))" "[]" testConfig urlTable hmacTable
              parseHello False
              "postRequest helloBody
                 (Some (expectedSignature hmacTable helloBody
                          testSecret))"]
        hello_dispatched
  by (simp add: processMessage_def testConfig_def imageMessage_def emptyMessage_def
        extractMessageContent_def content_def mediaOf_def)

section \<open>Content extraction by kind\<close>

lemma extract_text:
  "msg_type msg = utf16 ''text'' \<Longrightarrow>
     extractMessageContent msg =
       content (case msg_text msg of Some b \<Rightarrow> b | None \<Rightarrow> []) None None"
  by (simp add: extractMessageContent_def)

lemma extract_image:
  "msg_type msg = utf16 ''image'' \<Longrightarrow>
     extractMessageContent msg =
       content
         (case Option.bind (msg_image msg) mo_caption of Some c \<Rightarrow> c
          | None \<Rightarrow> utf16 ''['' @ emojiCamera @ utf16 '' Image]'')
         (map_option (\<lambda>m. mediaOf m True False) (msg_image msg)) None"
  by (simp add: extractMessageContent_def)

lemma extract_audio:
  "msg_type msg = utf16 ''audio'' \<Longrightarrow>
     extractMessageContent msg =
       content (utf16 ''['' @ emojiNote @ utf16 '' Audio message]'')
         (map_option (\<lambda>m. mediaOf m False False) (msg_audio msg)) None"
  by (simp add: extractMessageContent_def)

lemma extract_video:
  "msg_type msg = utf16 ''video'' \<Longrightarrow>
     extractMessageContent msg =
       content
         (case Option.bind (msg_video msg) mo_caption of Some c \<Rightarrow> c
          | None \<Rightarrow> utf16 ''['' @ emojiClapper @ utf16 '' Video]'')
         (map_option (\<lambda>m. mediaOf m True False) (msg_video msg)) None"
  by (simp add: extractMessageContent_def)

lemma extract_document:
  "msg_type msg = utf16 ''document'' \<Longrightarrow>
     extractMessageContent msg =
       content
         (case Option.bind (msg_document msg) mo_caption of Some c \<Rightarrow> c
          | None \<Rightarrow>
              utf16 ''['' @ emojiPage @ utf16 '' Document: ''
              @ (case Option.bind (msg_document msg) mo_filename of Some f \<Rightarrow> f
                 | None \<Rightarrow> utf16 ''file'')
              @ utf16 '']'')
         (map_option (\<lambda>m. mediaOf m True True) (msg_document msg)) None"
  by (simp add: extractMessageContent_def)

lemma extract_sticker:
  "msg_type msg = utf16 ''sticker'' \<Longrightarrow>
     extractMessageContent msg =
       content (utf16 ''[Sticker]'')
         (map_option (\<lambda>m. mediaOf m False False) (msg_sticker msg)) None"
  by (simp add: extractMessageContent_def)

lemma extract_location:
  "msg_type msg = utf16 ''location'' \<Longrightarrow>
     extractMessageContent msg =
       content
         (case msg_location msg of Some l \<Rightarrow> locationText l
          | None \<Rightarrow> utf16 ''['' @ emojiPin @ utf16 '' Location]'')
         None None"
  by (simp add: extractMessageContent_def)

lemma extract_contacts:
  "msg_type msg = utf16 ''contacts'' \<Longrightarrow>
     extractMessageContent msg =
       content
         (case msg_contacts msg of
            Some cs \<Rightarrow>
              utf16 ''[Contact: '' @ join (utf16 '', '') (map formatted_name cs) @ utf16 '']''
          | None \<Rightarrow> utf16 ''[Contact]'')
         None None"
  by (simp add: extractMessageContent_def)

lemma extract_interactive:
  "msg_type msg = utf16 ''interactive'' \<Longrightarrow>
     extractMessageContent msg =
       interactiveContent (msg_interactive msg)"
  by (simp add: extractMessageContent_def)

lemma extract_button:
  "msg_type msg = utf16 ''button'' \<Longrightarrow>
     extractMessageContent msg =
       content (case msg_button msg of Some b \<Rightarrow> bt_text b | None \<Rightarrow> utf16 ''[Button]'')
         None None"
  by (simp add: extractMessageContent_def)

lemma extract_unsupported:
  "msg_type msg \<notin> set (map utf16 [''text'', ''image'', ''audio'', ''video'', ''document'',
       ''sticker'', ''location'', ''contacts'', ''interactive'', ''button'']) \<Longrightarrow>
     extractMessageContent msg =
       content (utf16 ''['' @ msg_type msg @ utf16 '' message '' @ emDash
                @ utf16 '' not yet supported]'') None None"
  by (simp add: extractMessageContent_def)


lemma kind_cases:
  "msg_type msg = utf16 ''text'' \<or> msg_type msg = utf16 ''image''
   \<or> msg_type msg = utf16 ''audio'' \<or> msg_type msg = utf16 ''video''
   \<or> msg_type msg = utf16 ''document'' \<or> msg_type msg = utf16 ''sticker''
   \<or> msg_type msg = utf16 ''location'' \<or> msg_type msg = utf16 ''contacts''
   \<or> msg_type msg = utf16 ''interactive'' \<or> msg_type msg = utf16 ''button''
   \<or> msg_type msg \<notin> set (map utf16 [''text'', ''image'', ''audio'', ''video'', ''document'',
       ''sticker'', ''location'', ''contacts'', ''interactive'', ''button''])"
  by (simp del: utf16.simps) blast

lemma interactive_text_nonempty:
  assumes "\<forall>r b. reply = Some r \<and> (button_reply r = Some b \<or> list_reply r = Some b)
                \<longrightarrow> ro_title b \<noteq> []"
  shows "ec_text (interactiveContent reply) \<noteq> []"
  using assms
  by (auto simp: interactiveContent_def content_def split: option.splits)

lemma extract_text_nonempty:
  assumes "msg_type msg = utf16 ''text'' \<longrightarrow> (\<exists>b. msg_text msg = Some b \<and> b \<noteq> [])"
      and "msg_type msg = utf16 ''image'' \<longrightarrow> Option.bind (msg_image msg) mo_caption \<noteq> Some []"
      and "msg_type msg = utf16 ''video'' \<longrightarrow> Option.bind (msg_video msg) mo_caption \<noteq> Some []"
      and "msg_type msg = utf16 ''document'' \<longrightarrow>
             Option.bind (msg_document msg) mo_caption \<noteq> Some []"
      and "msg_type msg = utf16 ''interactive'' \<longrightarrow>
             (\<forall>r b. msg_interactive msg = Some r \<and> (button_reply r = Some b \<or> list_reply r = Some b)
                \<longrightarrow> ro_title b \<noteq> [])"
      and "msg_type msg = utf16 ''button'' \<longrightarrow> (\<forall>b. msg_button msg = Some b \<longrightarrow> bt_text b \<noteq> [])"
  shows "ec_text (extractMessageContent msg) \<noteq> []"
proof -
  consider (k_text) "msg_type msg = utf16 ''text''" | (k_image) "msg_type msg = utf16 ''image''"
    | (k_audio) "msg_type msg = utf16 ''audio''" | (k_video) "msg_type msg = utf16 ''video''"
    | (k_document) "msg_type msg = utf16 ''document''" | (k_sticker) "msg_type msg = utf16 ''sticker''"
    | (k_location) "msg_type msg = utf16 ''location''" | (k_contacts) "msg_type msg = utf16 ''contacts''"
    | (k_interactive) "msg_type msg = utf16 ''interactive''" | (k_button) "msg_type msg = utf16 ''button''"
    | (k_other) "msg_type msg \<notin> set (map utf16 [''text'', ''image'', ''audio'', ''video'',
         ''document'', ''sticker'', ''location'', ''contacts'', ''interactive'', ''button''])"
    using kind_cases [of msg] by blast
  then show ?thesis
  proof cases
    case k_text
    with assms(1) obtain b where "msg_text msg = Some b" "b \<noteq> []" by blast
    then show ?thesis by (simp add: extract_text [OF k_text] content_def)
  next
    case k_image
    with assms(2) have "Option.bind (msg_image msg) mo_caption \<noteq> Some []" by blast
    then show ?thesis
      by (cases "Option.bind (msg_image msg) mo_caption")
         (simp_all add: extract_image [OF k_image] content_def)
  next
    case k_audio
    then show ?thesis by (simp add: extract_audio [OF k_audio] content_def)
  next
    case k_video
    with assms(3) have "Option.bind (msg_video msg) mo_caption \<noteq> Some []" by blast
    then show ?thesis
      by (cases "Option.bind (msg_video msg) mo_caption")
         (simp_all add: extract_video [OF k_video] content_def)
  next
    case k_document
    with assms(4) have "Option.bind (msg_document msg) mo_caption \<noteq> Some []" by blast
    then show ?thesis
      by (cases "Option.bind (msg_document msg) mo_caption")
         (simp_all add: extract_document [OF k_document] content_def)
  next
    case k_sticker
    then show ?thesis by (simp add: extract_sticker [OF k_sticker] content_def)
  next
    case k_location
    then show ?thesis
      by (cases "msg_location msg")
         (simp_all add: extract_location [OF k_location] content_def locationText_nonempty)
  next
    case k_contacts
    then show ?thesis
      by (cases "msg_contacts msg") (simp_all add: extract_contacts [OF k_contacts] content_def)
  next
    case k_interactive
    with assms(5) show ?thesis
      by (simp add: extract_interactive [OF k_interactive] interactive_text_nonempty)
  next
    case k_button
    with assms(6) show ?thesis
      by (cases "msg_button msg") (simp_all add: extract_button [OF k_button] content_def)
  next
    case k_other
    then show ?thesis by (simp add: extract_unsupported [OF k_other] content_def)
  qed
qed

lemma msg_type_imageMessage: "msg_type (imageMessage cap) = utf16 ''image''"
  by (simp add: imageMessage_def emptyMessage_def)

lemma dispatched_imageMessage:
  "dispatched (processMessage (imageMessage cap) [] testConfig) =
     [\<lparr> sender = utf16 ''393491234567'', senderName = utf16 ''393491234567'',
        msgText = (case cap of Some c \<Rightarrow> c | None \<Rightarrow> utf16 ''['' @ [0xD83D, 0xDCF7] @ utf16 '' Image]''),
        messageId = utf16 ''wamid.test123'', timestamp = utf16 ''1700000000'',
        kind = utf16 ''image'',
        media = Some \<lparr> mediaId = utf16 ''media_id_123'', mimeType = utf16 ''image/jpeg'',
                        caption = cap, filename = None \<rparr>,
        interactiveReply = None, quotedMessageId = None \<rparr>]"
  by (simp add: processMessage_def testConfig_def extract_image [OF msg_type_imageMessage]
        content_def mediaOf_def Let_def)
     (simp add: imageMessage_def emptyMessage_def emojiCamera_def split: option.splits)

text \<open>
  The text of the tests' image message without a caption: the placeholder of the source
  holds the camera character, so it is not "[Image]".
\<close>

theorem image_text_counterexample:
  "map msgText (dispatched (processMessage (imageMessage None) [] testConfig))
     = [utf16 ''['' @ [0xD83D, 0xDCF7] @ utf16 '' Image]'']
   \<and> utf16 ''['' @ [0xD83D, 0xDCF7] @ utf16 '' Image]'' \<noteq> utf16 ''[Image]''"
  by (simp add: dispatched_imageMessage)

text \<open>
  C5, amended. For an inbound image message with no caption the normalized text is exactly
  "[", the camera character U+1F4F7, " Image]"; with a caption the text is the caption and
  \<open>media.mimeType\<close> is the \<open>mime_type\<close> of the payload's image.
\<close>

theorem image_text:
  assumes "msg_type msg = utf16 ''image''"
      and "m \<in> set (dispatched (processMessage msg cts config))"
  shows "(Option.bind (msg_image msg) mo_caption = None \<longrightarrow>
            msgText m = utf16 ''['' @ [0xD83D, 0xDCF7] @ utf16 '' Image]'')
       \<and> (\<forall>img c. msg_image msg = Some img \<and> mo_caption img = Some c \<longrightarrow>
            msgText m = c \<and> map_option mimeType (media m) = Some (mo_mime_type img))"
  using processMessage_normalized [OF assms(2)]
  by (auto simp: extract_image [OF assms(1)] content_def mediaOf_def emojiCamera_def)

theorem image_text_witness:
  "msg_type (imageMessage (Some (utf16 ''nice''))) = utf16 ''image''
   \<and> dispatched (processMessage (imageMessage (Some (utf16 ''nice''))) [] testConfig) \<noteq> []
   \<and> msgText (hd (dispatched (processMessage (imageMessage (Some (utf16 ''nice''))) [] testConfig)))
       = utf16 ''nice''
   \<and> map_option mimeType
        (media (hd (dispatched (processMessage (imageMessage (Some (utf16 ''nice''))) [] testConfig))))
       = Some (utf16 ''image/jpeg'')"
  using image_text [of "imageMessage (Some (utf16 ''nice''))"
      "hd (dispatched (processMessage (imageMessage (Some (utf16 ''nice''))) [] testConfig))"
      "[]" testConfig]
  by (simp add: dispatched_imageMessage msg_type_imageMessage)

lemma msg_type_emptyMessage: "msg_type (emptyMessage from ty) = ty"
  by (simp add: emptyMessage_def)

text \<open>
  A message of kind text whose body is the empty string, or whose \<open>text\<close> object is
  missing, is dispatched with empty text.
\<close>

theorem normalizer_text_counterexample:
  "map msgText (dispatched
      (processMessage
         ((emptyMessage (utf16 ''393491234567'') (utf16 ''text'')) \<lparr> msg_text := Some [] \<rparr>) []
         testConfig))
   = [[]]
   \<and> map msgText (dispatched
      (processMessage (emptyMessage (utf16 ''393491234567'') (utf16 ''text'')) [] testConfig))
   = [[]]"
  by (simp add: processMessage_def testConfig_def extract_text emptyMessage_def
        content_def Let_def)

text \<open>
  C4, amended. Content extraction is a total function of the payload, and the text is not
  empty for a message of any kind provided the strings that the kind takes over from the
  payload are not empty: the body of a text message, which must be present; the caption
  of an image, a video or a document, where there is one; the title of a button or list
  reply; the text of a button. Every synthesized placeholder is non-empty.
\<close>

theorem normalizer_text_nonempty:
  assumes "msg_type msg = utf16 ''text'' \<longrightarrow> (\<exists>b. msg_text msg = Some b \<and> b \<noteq> [])"
      and "msg_type msg = utf16 ''image'' \<longrightarrow> Option.bind (msg_image msg) mo_caption \<noteq> Some []"
      and "msg_type msg = utf16 ''video'' \<longrightarrow> Option.bind (msg_video msg) mo_caption \<noteq> Some []"
      and "msg_type msg = utf16 ''document'' \<longrightarrow>
             Option.bind (msg_document msg) mo_caption \<noteq> Some []"
      and "msg_type msg = utf16 ''interactive'' \<longrightarrow>
             (\<forall>r b. msg_interactive msg = Some r \<and> (button_reply r = Some b \<or> list_reply r = Some b)
                \<longrightarrow> ro_title b \<noteq> [])"
      and "msg_type msg = utf16 ''button'' \<longrightarrow> (\<forall>b. msg_button msg = Some b \<longrightarrow> bt_text b \<noteq> [])"
  shows "ec_text (extractMessageContent msg) \<noteq> []
       \<and> (\<forall>m \<in> set (dispatched (processMessage msg cts config)). msgText m \<noteq> [])"
  using extract_text_nonempty [OF assms] processMessage_normalized [of _ msg cts config]
  by auto

theorem normalizer_text_nonempty_witness:
  "ec_text (extractMessageContent (imageMessage None)) \<noteq> []
   \<and> dispatched (processMessage (imageMessage None) [] testConfig) \<noteq> []
   \<and> msgText (hd (dispatched (processMessage (imageMessage None) [] testConfig))) \<noteq> []"
  using normalizer_text_nonempty [of "imageMessage None" "[]" testConfig]
  by (simp add: dispatched_imageMessage msg_type_imageMessage)
     (simp add: imageMessage_def emptyMessage_def)

section \<open>Splitting a message\<close>

lemma lastIndexOf_bounds:
  "- 1 \<le> lastIndexOf s c p \<and> lastIndexOf s c p \<le> int p \<and> lastIndexOf s c p < int (length s)"
proof (cases "filter (\<lambda>k. s ! k = c) (rev [0 ..< min (Suc p) (length s)])")
  case Nil
  then show ?thesis by (simp add: lastIndexOf_def)
next
  case (Cons k ks)
  then have "k \<in> set (filter (\<lambda>k. s ! k = c) (rev [0 ..< min (Suc p) (length s)]))"
    by simp
  then have "k < Suc p" and "k < length s" by auto
  then show ?thesis using Cons by (simp add: lastIndexOf_def)
qed

lemma lastIndexOf_absent: "c \<notin> set s \<Longrightarrow> lastIndexOf s c p = - 1"
proof -
  assume a: "c \<notin> set s"
  have "filter (\<lambda>k. s ! k = c) (rev [0 ..< min (Suc p) (length s)]) = []"
    using a by (auto simp: filter_empty_conv)
  then show ?thesis by (simp add: lastIndexOf_def)
qed

lemma splitIndex_bounds:
  assumes "0 < m"
  shows "1 \<le> splitIndex r m \<and> splitIndex r m \<le> int m"
proof -
  let ?i = "lastIndexOf r 0x0A m"
  let ?j = "if 2 * ?i < int m then lastIndexOf r 0x20 m else ?i"
  have "?j \<le> int m"
    using lastIndexOf_bounds [of r "0x0A" m] lastIndexOf_bounds [of r "0x20" m] by simp
  moreover have "splitIndex r m = (if 10 * ?j < 3 * int m then int m else ?j)"
    by (simp add: splitIndex_def Let_def)
  ultimately show ?thesis using assms by (auto split: if_splits)
qed

lemma slice_prefix: "0 \<le> i \<Longrightarrow> sliceStr s 0 i = take (nat i) s"
  by (simp add: sliceStr_def sliceIndex_def min_def)

lemma slice_suffix: "0 \<le> i \<Longrightarrow> sliceStr s i (int (length s)) = drop (nat i) s"
  by (simp add: sliceStr_def sliceIndex_def min_def)

lemma length_trimStart: "length (trimStart s) \<le> length s"
  by (simp add: trimStart_def length_dropWhile_le)

lemma length_trimEnd: "length (trimEnd s) \<le> length s"
  using length_dropWhile_le [of isWhiteSpace "rev s"] by (simp add: trimEnd_def)

lemma split_progress:
  assumes "0 < m" and "m < length r"
  shows "length (trimStart (sliceStr r (splitIndex r m) (int (length r)))) < length r"
proof -
  have b: "1 \<le> splitIndex r m" using splitIndex_bounds [OF assms(1)] by simp
  then have "sliceStr r (splitIndex r m) (int (length r)) = drop (nat (splitIndex r m)) r"
    by (simp add: slice_suffix)
  moreover have "length (drop (nat (splitIndex r m)) r) < length r"
    using b assms by simp
  ultimately show ?thesis
    using length_trimStart [of "drop (nat (splitIndex r m)) r"] by simp
qed

lemma chunk_length:
  assumes "0 < m"
  shows "length (trimEnd (sliceStr r 0 (splitIndex r m))) \<le> m"
proof -
  have b: "1 \<le> splitIndex r m" "splitIndex r m \<le> int m"
    using splitIndex_bounds [OF assms] by simp_all
  then have "sliceStr r 0 (splitIndex r m) = take (nat (splitIndex r m)) r"
    by (simp add: slice_prefix)
  moreover have "nat (splitIndex r m) \<le> m" using b by simp
  then have "length (take (nat (splitIndex r m)) r) \<le> m" by simp
  ultimately show ?thesis
    using length_trimEnd [of "take (nat (splitIndex r m)) r"] by (simp del: length_take)
qed

lemma splitLoop_Some:
  assumes "0 < m"
  shows "\<exists>new. splitLoop m chunks r = Some (chunks @ new)
           \<and> (\<forall>c \<in> set new. length c \<le> m) \<and> (m < length r \<longrightarrow> new \<noteq> [])"
  using assms
proof (induction m chunks r rule: splitLoop.induct)
  case (1 m chunks r)
  show ?case
  proof (cases "m < length r")
    case False
    then show ?thesis by (auto simp: splitLoop.simps [of m chunks r])
  next
    case True
    let ?rest = "trimStart (sliceStr r (splitIndex r m) (int (length r)))"
    let ?chunk = "trimEnd (sliceStr r 0 (splitIndex r m))"
    have p: "length ?rest < length r" using split_progress [OF "1.prems" True] .
    from "1.IH" [OF True p "1.prems"]
    obtain new where n: "splitLoop m (chunks @ [?chunk]) ?rest = Some ((chunks @ [?chunk]) @ new)"
      and l: "\<forall>c \<in> set new. length c \<le> m" by blast
    have "splitLoop m chunks r = Some (chunks @ (?chunk # new))"
      using True p n by (subst splitLoop.simps) simp
    moreover have "\<forall>c \<in> set (?chunk # new). length c \<le> m"
      using l chunk_length [OF "1.prems", of r] by simp
    ultimately show ?thesis by blast
  qed
qed

lemma splitMessage_short: "length t \<le> m \<Longrightarrow> splitMessage t m = Some [t]"
  by (simp add: splitMessage_def)

lemma splitMessage_Some:
  assumes "0 < m"
  shows "\<exists>chunks. splitMessage t m = Some chunks \<and> chunks \<noteq> []
           \<and> (\<forall>c \<in> set chunks. length c \<le> m)"
proof (cases "length t \<le> m")
  case True
  then show ?thesis by (simp add: splitMessage_def)
next
  case False
  then have "m < length t" by simp
  with splitLoop_Some [OF assms, of "[]" t] show ?thesis
    using False by (auto simp: splitMessage_def)
qed

section \<open>Sending a text\<close>

lemma sendRequest_calls:
  "sendRequest fetch config request w = (r, w') \<Longrightarrow> calls w' = calls w @ [(request, r)]"
  by (auto simp: sendRequest_def Let_def split: prod.splits)

lemma sendChunks_calls:
  "sendChunks fetch config to chunks r0 w = (r, w') \<Longrightarrow>
     \<exists>new. calls w' = calls w @ new
       \<and> map fst new = map (textRequest to) (take (length new) chunks)
       \<and> length new \<le> length chunks
       \<and> (chunks = [] \<longrightarrow> r = r0)
       \<and> (chunks \<noteq> [] \<longrightarrow> new \<noteq> [] \<and> r = snd (last new))
       \<and> (\<forall>x \<in> set (butlast new). ok (snd x))
       \<and> (length new < length chunks \<longrightarrow> \<not> ok r)"
proof (induction chunks arbitrary: r0 w)
  case Nil
  then show ?case by simp
next
  case (Cons chunk rest)
  obtain r1 w1 where s: "sendRequest fetch config (textRequest to chunk) w = (r1, w1)"
    by (cases "sendRequest fetch config (textRequest to chunk) w")
  have c1: "calls w1 = calls w @ [(textRequest to chunk, r1)]"
    using sendRequest_calls [OF s] .
  show ?case
  proof (cases "ok r1")
    case False
    with Cons.prems s have "r = r1" "w' = w1" by simp_all
    with c1 False show ?thesis
      by (intro exI [of _ "[(textRequest to chunk, r1)]"]) simp
  next
    case True
    with Cons.prems s have "sendChunks fetch config to rest r1 w1 = (r, w')" by simp
    from Cons.IH [OF this] obtain new where
      n: "calls w' = calls w1 @ new"
      "map fst new = map (textRequest to) (take (length new) rest)"
      "length new \<le> length rest"
      "rest = [] \<longrightarrow> r = r1"
      "rest \<noteq> [] \<longrightarrow> new \<noteq> [] \<and> r = snd (last new)"
      "\<forall>x \<in> set (butlast new). ok (snd x)"
      "length new < length rest \<longrightarrow> \<not> ok r"
      by blast
    show ?thesis
    proof (intro exI [of _ "(textRequest to chunk, r1) # new"] conjI)
      show "calls w' = calls w @ (textRequest to chunk, r1) # new"
        using n(1) c1 by simp
      show "map fst ((textRequest to chunk, r1) # new) =
              map (textRequest to) (take (length ((textRequest to chunk, r1) # new)) (chunk # rest))"
        using n(2) by simp
      show "length ((textRequest to chunk, r1) # new) \<le> length (chunk # rest)"
        using n(3) by simp
      show "chunk # rest = [] \<longrightarrow> r = r0" by simp
      show "chunk # rest \<noteq> [] \<longrightarrow>
              (textRequest to chunk, r1) # new \<noteq> [] \<and> r = snd (last ((textRequest to chunk, r1) # new))"
        using n(3,4,5) by (cases rest) auto
      show "\<forall>x \<in> set (butlast ((textRequest to chunk, r1) # new)). ok (snd x)"
        using n(6) True by auto
      show "length ((textRequest to chunk, r1) # new) < length (chunk # rest) \<longrightarrow> \<not> ok r"
        using n(7) by simp
    qed
  qed
qed


text \<open>"A".repeat(5000), the long text of the tests, splits into 4096 and 904 characters.\<close>

lemma splitIndex_repeat_A: "splitIndex (replicate 5000 0x41) 4096 = 4096"
  by (simp add: splitIndex_def lastIndexOf_absent)

lemma splitMessage_repeat_A:
  "splitMessage (replicate 5000 0x41) 4096 = Some [replicate 4096 0x41, replicate 904 0x41]"
proof -
  have w: "\<not> isWhiteSpace 0x41" by (simp add: isWhiteSpace_def)
  have rest: "trimStart (sliceStr (replicate 5000 0x41) 4096 5000) = replicate 904 0x41"
    using w by (simp add: sliceStr_def sliceIndex_def trimStart_def)
  have chunk: "trimEnd (sliceStr (replicate 5000 0x41) 0 4096) = replicate 4096 0x41"
    using w by (simp add: sliceStr_def sliceIndex_def trimEnd_def)
  have "splitLoop 4096 [] (replicate 5000 0x41)
          = splitLoop 4096 [replicate 4096 0x41] (replicate 904 0x41)"
    by (subst splitLoop.simps) (simp add: splitIndex_repeat_A rest chunk)
  also have "\<dots> = Some [replicate 4096 0x41, replicate 904 0x41]"
    by (subst splitLoop.simps) simp
  finally show ?thesis by (simp add: splitMessage_def)
qed

lemmas eval_send = sendText_def sendRequest_def scriptedFetch_def freshWorld_def
  okResponse_def noChunks_def failure_def Let_def

text \<open>With the limit 0, which \<open>sendText\<close> never passes, the loop does not end on "a".\<close>

lemma splitMessage_zero_diverges: "splitMessage (utf16 ''a'') 0 = None"
  by (simp add: splitMessage_def)
     (subst splitLoop.simps,
      simp add: splitIndex_def lastIndexOf_def sliceStr_def sliceIndex_def trimStart_def
        isWhiteSpace_def)

text \<open>What \<open>fetch\<close> receives from \<open>sendRequest\<close>, and how the result follows its outcome.\<close>

lemma sendRequest_recording:
  assumes "sendRequest (recording fetch) config request w = (r, w')"
  shows "\<exists>outcome.
           snd (network w') = snd (network w)
             @ [(\<lparr> url = apiUrl config (phoneNumberId config @ utf16 ''/messages''),
               authorization = utf16 ''Bearer '' @ accessToken config,
               contentType = utf16 ''application/json'', payload = request \<rparr>, outcome)]
           \<and> calls w' = calls w @ [(request, r)]
           \<and> ok r = (\<exists>mid. outcome = OkResponse (Inr mid))
           \<and> (\<not> ok r \<longrightarrow> errorText r \<noteq> None)"
  using assms
  by (auto simp: sendRequest_def recording_def failure_def Let_def
      split: prod.splits fetchOutcome.splits sum.splits)

lemma sendChunks_recording:
  "sendChunks (recording fetch) config to chunks r0 w = (r, w') \<Longrightarrow>
     \<exists>new flog. calls w' = calls w @ new
       \<and> snd (network w') = snd (network w) @ flog
       \<and> length flog = length new
       \<and> map fst flog
           = map (\<lambda>chunk. \<lparr> url = apiUrl config (phoneNumberId config @ utf16 ''/messages''),
               authorization = utf16 ''Bearer '' @ accessToken config,
               contentType = utf16 ''application/json'', payload = textRequest to chunk \<rparr>)
               (take (length flog) chunks)
       \<and> map (ok \<circ> snd) new = map ((\<lambda>outcome. \<exists>mid. outcome = OkResponse (Inr mid)) \<circ> snd) flog
       \<and> (\<forall>x \<in> set new. \<not> ok (snd x) \<longrightarrow> errorText (snd x) \<noteq> None)"
proof (induction chunks arbitrary: r0 w)
  case Nil
  then show ?case by simp
next
  case (Cons chunk rest)
  obtain r1 w1 where s: "sendRequest (recording fetch) config (textRequest to chunk) w = (r1, w1)"
    by (cases "sendRequest (recording fetch) config (textRequest to chunk) w")
  from sendRequest_recording [OF s] obtain outcome where
    o: "snd (network w1) = snd (network w)
             @ [(\<lparr> url = apiUrl config (phoneNumberId config @ utf16 ''/messages''),
               authorization = utf16 ''Bearer '' @ accessToken config,
               contentType = utf16 ''application/json'', payload = textRequest to chunk \<rparr>, outcome)]"
       "calls w1 = calls w @ [(textRequest to chunk, r1)]"
       "ok r1 = (\<exists>mid. outcome = OkResponse (Inr mid))"
       "\<not> ok r1 \<longrightarrow> errorText r1 \<noteq> None"
    by blast
  show ?case
  proof (cases "ok r1")
    case False
    with Cons.prems s have "w' = w1" by simp
    with o False show ?thesis
      by (intro exI [of _ "[(textRequest to chunk, r1)]"]
                exI [of _ "[(\<lparr> url = apiUrl config (phoneNumberId config @ utf16 ''/messages''),
               authorization = utf16 ''Bearer '' @ accessToken config,
               contentType = utf16 ''application/json'', payload = textRequest to chunk \<rparr>, outcome)]"])
         (simp add: comp_def)
  next
    case True
    with Cons.prems s have "sendChunks (recording fetch) config to rest r1 w1 = (r, w')" by simp
    from Cons.IH [OF this] obtain new flog where
      n: "calls w' = calls w1 @ new" "snd (network w') = snd (network w1) @ flog"
         "length flog = length new"
         "map fst flog
           = map (\<lambda>chunk. \<lparr> url = apiUrl config (phoneNumberId config @ utf16 ''/messages''),
               authorization = utf16 ''Bearer '' @ accessToken config,
               contentType = utf16 ''application/json'', payload = textRequest to chunk \<rparr>)
               (take (length flog) rest)"
         "map (ok \<circ> snd) new
           = map ((\<lambda>outcome. \<exists>mid. outcome = OkResponse (Inr mid)) \<circ> snd) flog"
         "\<forall>x \<in> set new. \<not> ok (snd x) \<longrightarrow> errorText (snd x) \<noteq> None"
      by blast
    show ?thesis
      using n o True
      by (intro exI [of _ "(textRequest to chunk, r1) # new"]
                exI [of _ "(\<lparr> url = apiUrl config (phoneNumberId config @ utf16 ''/messages''),
               authorization = utf16 ''Bearer '' @ accessToken config,
               contentType = utf16 ''application/json'', payload = textRequest to chunk \<rparr>, outcome) # flog"])
         (simp add: comp_def)
  qed
qed

text \<open>
  C6. For a text of at most 4096 code units \<open>sendText\<close> returns after exactly one request:
  \<open>fetch\<close> receives one call, to the messages URL of the configured phone number, whose
  payload is the text message to the recipient with the whole text as its body. For a
  longer text \<open>splitMessage\<close> returns chunks of at most 4096 code units each, and
  \<open>sendText\<close> returns after \<open>fetch\<close> has received, one call after the other and each in the
  network state the previous one left, the requests for a non-empty prefix of the chunks,
  in order. Every request but the last succeeded; a request succeeds exactly when its
  response is ok and its body is read. The result is that of the last request, with an
  error text when it failed; the remaining chunks are not sent only when that last
  request failed, and the result is ok only when every chunk was sent and every request
  succeeded.
\<close>

theorem sendText_chunking:
  "let wire = (\<lambda>chunk.
           \<lparr> url = utf16 ''https://graph.facebook.com/'' @ apiVersion config @ utf16 ''/''
                   @ phoneNumberId config @ utf16 ''/messages'',
             authorization = utf16 ''Bearer '' @ accessToken config,
             contentType = utf16 ''application/json'',
             payload = \<lparr> messaging_product = utf16 ''whatsapp'',
                         recipient_type = utf16 ''individual'', recipient = to,
                         requestType = utf16 ''text'', preview_url = False,
                         body = chunk \<rparr> \<rparr>);
       succeeded = (\<lambda>outcome. \<exists>mid. outcome = OkResponse (Inr mid))
   in (length txt \<le> 4096 \<longrightarrow>
        (\<exists>r w' outcome. sendText (recording fetch) config to txt w = Some (r, w')
            \<and> snd (network w') = snd (network w) @ [(wire txt, outcome)]
            \<and> calls w' = calls w @ [(textRequest to txt, r)]
            \<and> body (textRequest to txt) = txt
            \<and> ok r = succeeded outcome
            \<and> (\<not> ok r \<longrightarrow> errorText r \<noteq> None)))
      \<and> (4096 < length txt \<longrightarrow>
        (\<exists>chunks new flog r w'. splitMessage txt 4096 = Some chunks
            \<and> (\<forall>c \<in> set chunks. length c \<le> 4096)
            \<and> sendText (recording fetch) config to txt w = Some (r, w')
            \<and> snd (network w') = snd (network w) @ flog
            \<and> flog \<noteq> [] \<and> length flog \<le> length chunks
            \<and> map fst flog = map wire (take (length flog) chunks)
            \<and> (\<forall>x \<in> set (butlast flog). succeeded (snd x))
            \<and> ok r = succeeded (snd (last flog))
            \<and> (\<not> ok r \<longrightarrow> errorText r \<noteq> None)
            \<and> (length flog < length chunks \<longrightarrow> \<not> ok r)
            \<and> (ok r \<longrightarrow> length flog = length chunks \<and> (\<forall>x \<in> set flog. succeeded (snd x)))
            \<and> calls w' = calls w @ new \<and> new \<noteq> [] \<and> length new \<le> length chunks
            \<and> length new = length flog
            \<and> map fst new = map (textRequest to) (take (length new) chunks)
            \<and> map (ok \<circ> snd) new = map (succeeded \<circ> snd) flog
            \<and> r = snd (last new)
            \<and> (\<forall>x \<in> set (butlast new). ok (snd x))
            \<and> (length new < length chunks \<longrightarrow> \<not> ok r)
            \<and> (ok r \<longrightarrow> length new = length chunks \<and> (\<forall>x \<in> set new. ok (snd x)))))"
proof -
  let ?wire = "(\<lambda>chunk.
           \<lparr> url = utf16 ''https://graph.facebook.com/'' @ apiVersion config @ utf16 ''/''
                   @ phoneNumberId config @ utf16 ''/messages'',
             authorization = utf16 ''Bearer '' @ accessToken config,
             contentType = utf16 ''application/json'',
             payload = \<lparr> messaging_product = utf16 ''whatsapp'',
                         recipient_type = utf16 ''individual'', recipient = to,
                         requestType = utf16 ''text'', preview_url = False,
                         body = chunk \<rparr> \<rparr>)"
  let ?succeeded = "\<lambda>outcome. \<exists>mid. outcome = OkResponse (Inr mid)"
  have main: "\<exists>new flog r w'.
         sendText (recording fetch) config to txt w = Some (r, w')
       \<and> snd (network w') = snd (network w) @ flog
       \<and> flog \<noteq> [] \<and> length flog \<le> length chunks
       \<and> map fst flog = map ?wire (take (length flog) chunks)
       \<and> (\<forall>x \<in> set (butlast flog). ?succeeded (snd x))
       \<and> ok r = ?succeeded (snd (last flog))
       \<and> (\<not> ok r \<longrightarrow> errorText r \<noteq> None)
       \<and> (length flog < length chunks \<longrightarrow> \<not> ok r)
       \<and> (ok r \<longrightarrow> length flog = length chunks \<and> (\<forall>x \<in> set flog. ?succeeded (snd x)))
       \<and> calls w' = calls w @ new \<and> new \<noteq> [] \<and> length new \<le> length chunks
       \<and> length new = length flog
       \<and> map fst new = map (textRequest to) (take (length new) chunks)
       \<and> map (ok \<circ> snd) new = map (?succeeded \<circ> snd) flog
       \<and> r = snd (last new)
       \<and> (\<forall>x \<in> set (butlast new). ok (snd x))
       \<and> (length new < length chunks \<longrightarrow> \<not> ok r)
       \<and> (ok r \<longrightarrow> length new = length chunks \<and> (\<forall>x \<in> set new. ok (snd x)))"
    if c: "splitMessage txt 4096 = Some chunks" "chunks \<noteq> []" for chunks
  proof -
    obtain r w' where s: "sendChunks (recording fetch) config to chunks noChunks w = (r, w')"
      by (cases "sendChunks (recording fetch) config to chunks noChunks w")
    from sendChunks_calls [OF s] c(2) obtain new where
      n: "calls w' = calls w @ new"
         "map fst new = map (textRequest to) (take (length new) chunks)"
         "length new \<le> length chunks" "new \<noteq> []" "r = snd (last new)"
         "\<forall>x \<in> set (butlast new). ok (snd x)" "length new < length chunks \<longrightarrow> \<not> ok r"
      by auto
    from sendChunks_recording [OF s] obtain new' flog where
      f: "calls w' = calls w @ new'" "snd (network w') = snd (network w) @ flog"
         "length flog = length new'"
         "map fst flog
           = map (\<lambda>chunk. \<lparr> url = apiUrl config (phoneNumberId config @ utf16 ''/messages''),
               authorization = utf16 ''Bearer '' @ accessToken config,
               contentType = utf16 ''application/json'', payload = textRequest to chunk \<rparr>)
               (take (length flog) chunks)"
         "map (ok \<circ> snd) new' = map (?succeeded \<circ> snd) flog"
         "\<forall>x \<in> set new'. \<not> ok (snd x) \<longrightarrow> errorText (snd x) \<noteq> None"
      by blast
    have e: "new' = new" using n(1) f(1) by simp
    have len: "length flog = length new" using f(3) e by simp
    have fne: "flog \<noteq> []" using len n(4) by auto
    have fw: "map fst flog = map ?wire (take (length flog) chunks)"
      using f(4) by (simp add: apiUrl_def textRequest_def)
    have pt: "ok (snd (new ! i)) = ?succeeded (snd (flog ! i))" if "i < length new" for i
    proof -
      have "map (ok \<circ> snd) new ! i = map (?succeeded \<circ> snd) flog ! i"
        using f(5) e by simp
      then show ?thesis using that len by simp
    qed
    have lastnew: "last new = new ! (length new - 1)" using n(4) by (simp add: last_conv_nth)
    have lastf: "last flog = flog ! (length new - 1)" using fne len by (simp add: last_conv_nth)
    have okr: "ok r = ?succeeded (snd (last flog))"
      using pt [of "length new - 1"] n(4,5) lastnew lastf by simp
    have allnew: "ok r \<longrightarrow> length new = length chunks \<and> (\<forall>x \<in> set new. ok (snd x))"
    proof
      assume o: "ok r"
      have "\<forall>x \<in> set (butlast new @ [last new]). ok (snd x)"
        using n(5,6) o by (auto simp del: append_butlast_last_id)
      then have "\<forall>x \<in> set new. ok (snd x)" using n(4) by simp
      moreover have "length new = length chunks" using n(3,7) o by auto
      ultimately show "length new = length chunks \<and> (\<forall>x \<in> set new. ok (snd x))" by simp
    qed
    have sf: "?succeeded (snd (flog ! i)) = ok (snd (new ! i))" if "i < length flog" for i
      using pt [of i] that len by simp
    have bl: "\<forall>x \<in> set (butlast flog). ?succeeded (snd x)"
    proof
      fix x assume "x \<in> set (butlast flog)"
      then obtain i where i: "i < length (butlast flog)" "x = butlast flog ! i"
        by (auto simp: in_set_conv_nth)
      then have i': "i < length flog - 1" by simp
      then have x: "x = flog ! i" using i(2) by (simp add: nth_butlast)
      have "new ! i \<in> set (butlast new)"
        using i' len by (auto simp: in_set_conv_nth nth_butlast intro!: exI [of _ i])
      then have "ok (snd (new ! i))" using n(6) by blast
      then show "?succeeded (snd x)" using sf [of i] i' x by simp
    qed
    have allf: "ok r \<longrightarrow> length flog = length chunks \<and> (\<forall>x \<in> set flog. ?succeeded (snd x))"
    proof
      assume o: "ok r"
      then have a: "length new = length chunks" "\<forall>x \<in> set new. ok (snd x)"
        using allnew by simp_all
      have "\<forall>x \<in> set flog. ?succeeded (snd x)"
      proof
        fix x assume "x \<in> set flog"
        then obtain i where i: "i < length flog" "x = flog ! i"
          by (auto simp: in_set_conv_nth)
        then have "new ! i \<in> set new" using len by simp
        then have "ok (snd (new ! i))" using a(2) by blast
        then show "?succeeded (snd x)" using sf [of i] i by simp
      qed
      then show "length flog = length chunks \<and> (\<forall>x \<in> set flog. ?succeeded (snd x))"
        using a(1) len by simp
    qed
    have err: "\<not> ok r \<longrightarrow> errorText r \<noteq> None"
      using f(6) e n(4,5) by (metis last_in_set)
    have st: "sendText (recording fetch) config to txt w = Some (r, w')"
      using c(1) s by (simp add: sendText_def)
    have l1: "length flog \<le> length chunks" using len n(3) by simp
    have l2: "length flog < length chunks \<longrightarrow> \<not> ok r" using len n(7) by simp
    have l3: "length new = length flog" using len by simp
    have m5: "map (ok \<circ> snd) new = map (?succeeded \<circ> snd) flog" using f(5) e by simp
    show ?thesis
      by (rule exI [of _ new], rule exI [of _ flog], rule exI [of _ r], rule exI [of _ w'])
         (intro conjI st f(2) fne l1 fw bl okr err l2 allf n(1) n(4) n(3) l3 n(2) m5 n(5) n(6)
            n(7) allnew)
  qed
  have short: "\<exists>r w' outcome. sendText (recording fetch) config to txt w = Some (r, w')
            \<and> snd (network w') = snd (network w) @ [(?wire txt, outcome)]
            \<and> calls w' = calls w @ [(textRequest to txt, r)]
            \<and> body (textRequest to txt) = txt
            \<and> ok r = ?succeeded outcome
            \<and> (\<not> ok r \<longrightarrow> errorText r \<noteq> None)"
    if "length txt \<le> 4096"
  proof -
    have sm: "splitMessage txt 4096 = Some [txt]" using that by (rule splitMessage_short)
    obtain r w' where s: "sendRequest (recording fetch) config (textRequest to txt) w = (r, w')"
      by (cases "sendRequest (recording fetch) config (textRequest to txt) w")
    from sendRequest_recording [OF s] obtain outcome where
      o: "snd (network w') = snd (network w)
             @ [(\<lparr> url = apiUrl config (phoneNumberId config @ utf16 ''/messages''),
               authorization = utf16 ''Bearer '' @ accessToken config,
               contentType = utf16 ''application/json'', payload = textRequest to txt \<rparr>, outcome)]"
         "calls w' = calls w @ [(textRequest to txt, r)]"
         "ok r = ?succeeded outcome" "\<not> ok r \<longrightarrow> errorText r \<noteq> None"
      by blast
    have st: "sendText (recording fetch) config to txt w = Some (r, w')"
      using sm s by (simp add: sendText_def)
    have o1: "snd (network w') = snd (network w) @ [(?wire txt, outcome)]"
      using o(1) by (simp add: apiUrl_def textRequest_def)
    have b: "body (textRequest to txt) = txt" by (simp add: textRequest_def)
    show ?thesis
      by (rule exI [of _ r], rule exI [of _ w'], rule exI [of _ outcome])
         (intro conjI st o1 o(2) b o(3) o(4))
  qed
  have long: "\<exists>chunks new flog r w'. splitMessage txt 4096 = Some chunks
            \<and> (\<forall>c \<in> set chunks. length c \<le> 4096)
            \<and> sendText (recording fetch) config to txt w = Some (r, w')
            \<and> snd (network w') = snd (network w) @ flog
            \<and> flog \<noteq> [] \<and> length flog \<le> length chunks
            \<and> map fst flog = map ?wire (take (length flog) chunks)
            \<and> (\<forall>x \<in> set (butlast flog). ?succeeded (snd x))
            \<and> ok r = ?succeeded (snd (last flog))
            \<and> (\<not> ok r \<longrightarrow> errorText r \<noteq> None)
            \<and> (length flog < length chunks \<longrightarrow> \<not> ok r)
            \<and> (ok r \<longrightarrow> length flog = length chunks \<and> (\<forall>x \<in> set flog. ?succeeded (snd x)))
            \<and> calls w' = calls w @ new \<and> new \<noteq> [] \<and> length new \<le> length chunks
            \<and> length new = length flog
            \<and> map fst new = map (textRequest to) (take (length new) chunks)
            \<and> map (ok \<circ> snd) new = map (?succeeded \<circ> snd) flog
            \<and> r = snd (last new)
            \<and> (\<forall>x \<in> set (butlast new). ok (snd x))
            \<and> (length new < length chunks \<longrightarrow> \<not> ok r)
            \<and> (ok r \<longrightarrow> length new = length chunks \<and> (\<forall>x \<in> set new. ok (snd x)))"
  proof -
    from splitMessage_Some [of "4096" "txt"] obtain chunks where
      c: "splitMessage txt 4096 = Some chunks" "chunks \<noteq> []"
         "\<forall>c \<in> set chunks. length c \<le> 4096"
      by auto
    from main [OF c(1,2)] c(1,3) show ?thesis by blast
  qed
  show ?thesis
    unfolding Let_def using short long by blast
qed

theorem sendText_chunking_witness:
  "length (utf16 ''Hello'') \<le> 4096
   \<and> map_option (map fst \<circ> snd \<circ> network \<circ> snd)
        (sendText (recording scriptedFetch) testConfig (utf16 ''393491234567'') (utf16 ''Hello'')
           (freshWorld ([okResponse ''wamid.abc123''], [])))
      = Some [\<lparr> url = utf16 ''https://graph.facebook.com/v21.0/123456789/messages'',
                authorization = utf16 ''Bearer test_token'',
                contentType = utf16 ''application/json'',
                payload = \<lparr> messaging_product = utf16 ''whatsapp'',
                            recipient_type = utf16 ''individual'',
                            recipient = utf16 ''393491234567'', requestType = utf16 ''text'',
                            preview_url = False, body = utf16 ''Hello'' \<rparr> \<rparr>]
   \<and> 4096 < length (replicate 5000 (0x41 :: jschar))
   \<and> map_option (map (body \<circ> payload \<circ> fst) \<circ> snd \<circ> network \<circ> snd)
        (sendText (recording scriptedFetch) testConfig (utf16 ''393491234567'')
           (replicate 5000 0x41)
           (freshWorld ([okResponse ''wamid.chunk1'', okResponse ''wamid.chunk2''], [])))
      = Some [replicate 4096 0x41, replicate 904 0x41]
   \<and> map_option (ok \<circ> fst)
        (sendText (recording scriptedFetch) testConfig (utf16 ''393491234567'')
           (replicate 5000 0x41)
           (freshWorld ([okResponse ''wamid.chunk1'', okResponse ''wamid.chunk2''], [])))
      = Some True
   \<and> map_option (map (body \<circ> payload \<circ> fst) \<circ> snd \<circ> network \<circ> snd)
        (sendText (recording scriptedFetch) testConfig (utf16 ''393491234567'')
           (replicate 5000 0x41)
           (freshWorld ([ErrorResponse 400 (utf16 ''Bad Request'') None,
                         okResponse ''wamid.chunk2''], [])))
      = Some [replicate 4096 0x41]
   \<and> map_option (errorText \<circ> fst)
        (sendText (recording scriptedFetch) testConfig (utf16 ''393491234567'')
           (replicate 5000 0x41)
           (freshWorld ([ErrorResponse 400 (utf16 ''Bad Request'') None,
                         okResponse ''wamid.chunk2''], [])))
      = Some (Some (utf16 ''HTTP 400 Bad Request''))"
  using sendText_chunking [of testConfig "utf16 ''393491234567''" "utf16 ''Hello''"
          scriptedFetch "freshWorld ([okResponse ''wamid.abc123''], [])"]
        sendText_chunking [of testConfig "utf16 ''393491234567''" "replicate 5000 0x41"
          scriptedFetch
          "freshWorld ([okResponse ''wamid.chunk1'', okResponse ''wamid.chunk2''], [])"]
  by (simp add: eval_send recording_def splitMessage_repeat_A splitMessage_short
        textRequest_def apiUrl_def testConfig_def showNat.simps)

text \<open>
  C10. For every input string, the empty one included, \<open>splitMessage\<close> returns a non-empty
  list of chunks (for the limit 4096 of \<open>sendText\<close>, and for every positive limit). So
  the loop of \<open>sendText\<close> runs at least once: \<open>sendText\<close> returns, at least one request
  has been made, and what is returned is the result of the last request made, not the
  initial "No chunks" placeholder.
\<close>

theorem sendText_at_least_once:
  "(\<exists>chunks. splitMessage txt 4096 = Some chunks \<and> chunks \<noteq> [])
   \<and> (0 < maxLength \<longrightarrow> (\<exists>chunks. splitMessage txt maxLength = Some chunks \<and> chunks \<noteq> []))
   \<and> (\<exists>new r w'. sendText fetch config to txt w = Some (r, w')
         \<and> calls w' = calls w @ new \<and> new \<noteq> [] \<and> r = snd (last new))"
proof -
  from splitMessage_Some [of "4096" "txt"] obtain chunks where
    c: "splitMessage txt 4096 = Some chunks" "chunks \<noteq> []" by auto
  obtain r w' where s: "sendChunks fetch config to chunks noChunks w = (r, w')"
    by (cases "sendChunks fetch config to chunks noChunks w")
  from sendChunks_calls [OF s] c(2) obtain new where
    n: "calls w' = calls w @ new" "new \<noteq> []" "r = snd (last new)" by auto
  have "sendText fetch config to txt w = Some (r, w')"
    using c(1) s by (simp add: sendText_def)
  with n have "\<exists>new r w'. sendText fetch config to txt w = Some (r, w')
         \<and> calls w' = calls w @ new \<and> new \<noteq> [] \<and> r = snd (last new)" by blast
  moreover have "0 < maxLength \<longrightarrow>
      (\<exists>chunks. splitMessage txt maxLength = Some chunks \<and> chunks \<noteq> [])"
    using splitMessage_Some [of maxLength "txt"] by auto
  ultimately show ?thesis using c by blast
qed


theorem sendText_at_least_once_witness:
  "0 < (4096 :: nat)
   \<and> splitMessage [] 4096 = Some [[]]
   \<and> map_option (map (body \<circ> fst) \<circ> calls \<circ> snd)
        (sendText scriptedFetch testConfig (utf16 ''393491234567'') []
           (freshWorld [okResponse ''wamid.abc123'']))
      = Some [[]]
   \<and> map_option fst
        (sendText scriptedFetch testConfig (utf16 ''393491234567'') []
           (freshWorld [okResponse ''wamid.abc123'']))
      \<noteq> Some noChunks"
  using sendText_at_least_once [of "[]" "4096" scriptedFetch testConfig
          "utf16 ''393491234567''" "freshWorld [okResponse ''wamid.abc123'']"]
  by (simp add: eval_send splitMessage_short textRequest_def)

end
